theory Spec2Isabelle
  imports Complex_Main
begin

section \<open>Python values, theano expressions and layers\<close>

text \<open>
  The file \<^verbatim>\<open>theanets/graph.py\<close> assembles a feed-forward network from a loosely typed
  topology description. The model follows the Python: dynamically typed values are one
  datatype, every exception is a value of \<open>error\<close>, dictionaries passed as keyword
  arguments are association lists in insertion order, and attributes of the network object
  are fields of a record that is passed through every method.

  Where Python 2 and Python 3 differ (ordering comparisons between a number and a
  non-number, the order of \<^verbatim>\<open>dict.items()\<close>), the model follows Python 3.
\<close>

datatype error =
    KeyError string
  | IndexError
  | TypeError
  | AttributeError string
  | IOError string
  | BuildError string
  | TheanoError string

text \<open>
  Symbolic theano expressions, as far as this module builds them. \<open>Shared\<close> is a shared
  variable (a learnable parameter, named by a number), \<open>Apply\<close> an operation of a
  collaborator (a layer's transform) applied to its arguments.
\<close>

datatype expr =
    Matrix string
  | Shared nat
  | IntLit int
  | FloatConst real
  | Add expr expr
  | Sub expr expr
  | Mul expr expr
  | Div expr expr
  | Abs expr
  | Sqr expr
  | Sum expr
  | Mean expr
  | MeanAxis0 expr
  | Grad expr expr
  | Apply string "expr list"

text \<open>
  A layer object, with the attributes this module reads: the name of its class, \<^verbatim>\<open>name\<close>,
  \<^verbatim>\<open>size\<close>, \<^verbatim>\<open>params\<close> (its shared variables) and the dictionary \<^verbatim>\<open>outputs\<close>.
\<close>

record layer =
  l_class :: string
  l_name :: string
  l_size :: int
  l_params :: "nat list"
  l_outputs :: "(string \<times> expr) list"

datatype pyval =
    PNone
  | PBool bool
  | PInt int
  | PFloat real
  | PStr string
  | PTuple "pyval list"
  | PList "pyval list"
  | PDict "(string \<times> pyval) list"
  | PClass string bool
  | PLayer layer
  | PInputs "(string \<times> expr) list"
  | PRng nat

text \<open>
  \<open>PClass n b\<close> is a class object whose \<^verbatim>\<open>__name__\<close> is \<open>n\<close>; \<open>b\<close> says whether it is
  a subclass of \<^verbatim>\<open>layers.Layer\<close>. \<open>PInputs\<close> is a dictionary from names to theano
  expressions, \<open>PRng\<close> a random stream object.
\<close>

type_synonym kwargs = "(string \<times> pyval) list"

subsection \<open>Python built-ins\<close>

text \<open>\<^verbatim>\<open>bool(v)\<close>.\<close>

fun truthy :: "pyval \<Rightarrow> bool" where
  "truthy PNone = False"
| "truthy (PBool b) = b"
| "truthy (PInt n) = (n \<noteq> 0)"
| "truthy (PFloat r) = (r \<noteq> 0)"
| "truthy (PStr s) = (s \<noteq> [])"
| "truthy (PTuple xs) = (xs \<noteq> [])"
| "truthy (PList xs) = (xs \<noteq> [])"
| "truthy (PDict d) = (d \<noteq> [])"
| "truthy (PClass n b) = True"
| "truthy (PLayer l) = True"
| "truthy (PInputs d) = (d \<noteq> [])"
| "truthy (PRng n) = True"

text \<open>\<^verbatim>\<open>d.get(k)\<close> and \<^verbatim>\<open>d.get(k, default)\<close>, \<^verbatim>\<open>k in d\<close>, \<^verbatim>\<open>d[k]\<close>.\<close>

definition get :: "kwargs \<Rightarrow> string \<Rightarrow> pyval" where
  "get d k = (case map_of d k of None \<Rightarrow> PNone | Some v \<Rightarrow> v)"

definition get_default :: "kwargs \<Rightarrow> string \<Rightarrow> pyval \<Rightarrow> pyval" where
  "get_default d k v0 = (case map_of d k of None \<Rightarrow> v0 | Some v \<Rightarrow> v)"

definition has_key :: "kwargs \<Rightarrow> string \<Rightarrow> bool" where
  "has_key d k = (map_of d k \<noteq> None)"

definition getitem :: "kwargs \<Rightarrow> string \<Rightarrow> error + pyval" where
  "getitem d k = (case map_of d k of None \<Rightarrow> Inl (KeyError k) | Some v \<Rightarrow> Inr v)"

text \<open>
  \<^verbatim>\<open>d[k] = v\<close>: an existing key keeps its position, a new key goes to the end.
  \<^verbatim>\<open>d.update(e)\<close> stores the items of \<open>e\<close> in order.
\<close>

fun setitem :: "('k \<times> 'v) list \<Rightarrow> 'k \<Rightarrow> 'v \<Rightarrow> ('k \<times> 'v) list" where
  "setitem [] k v = [(k, v)]"
| "setitem ((k', v') # d) k v = (if k' = k then (k, v) # d else (k', v') # setitem d k v)"

fun update :: "kwargs \<Rightarrow> kwargs \<Rightarrow> kwargs" where
  "update d [] = d"
| "update d ((k, v) # e) = update (setitem d k v) e"

section \<open>The network object\<close>

text \<open>
  The attributes of a \<^verbatim>\<open>Network\<close>. \<open>net_x\<close> and \<open>net_weights\<close> are unset (\<open>None\<close>)
  until \<^verbatim>\<open>setup_vars\<close> has run. The two caches map a key to the address of an object
  in \<open>net_heap\<close>, the store of the mutable objects the network holds references to; an
  address is an index into the store.
\<close>

datatype obj =
    ExprList "expr list"
  | MonList "(string \<times> expr) list"
  | UpdList "(expr \<times> expr) list"
  | Tuple3 nat nat nat
  | Function "expr list" "expr list" "(expr \<times> expr) list"

record network =
  net_graphs :: "(string \<times> nat) list"
  net_functions :: "(string \<times> nat) list"
  net_layers :: "layer list"
  net_kwargs :: kwargs
  net_inputs :: "expr list"
  net_x :: "expr option"
  net_weights :: "expr option"
  net_heap :: "obj list"

subsection \<open>\<^verbatim>\<open>setup_vars\<close> and \<^verbatim>\<open>is_weighted\<close>\<close>

text \<open>
  \<^verbatim>\<open>setup_vars\<close> creates both matrices whatever the options are, and returns the list
  of the variables the network takes as inputs.
\<close>

definition setup_vars :: "network \<Rightarrow> expr list \<times> network" where
  "setup_vars net =
     (let net1 = net\<lparr>net_x := Some (Matrix ''x'')\<rparr>;
          net2 = net1\<lparr>net_weights := Some (Matrix ''weights'')\<rparr>
      in if truthy (get (net_kwargs net2) ''weighted'')
         then ([Matrix ''x'', Matrix ''weights''], net2)
         else ([Matrix ''x''], net2))"

definition is_weighted :: "network \<Rightarrow> bool" where
  "is_weighted net = truthy (get (net_kwargs net) ''weighted'')"

definition output_activation :: "network \<Rightarrow> pyval" where
  "output_activation net = get_default (net_kwargs net) ''output_activation'' (PStr ''linear'')"

subsection \<open>More built-ins: formatting, case, sequences\<close>

text \<open>\<^verbatim>\<open>str(n)\<close> for an integer, as \<^verbatim>\<open>'{}'.format(n)\<close> prints it.\<close>

definition digit_char :: "nat \<Rightarrow> char" where
  "digit_char d = char_of (48 + d)"

fun digits :: "nat \<Rightarrow> string" where
  "digits n = (if n < 10 then [digit_char n] else digits (n div 10) @ [digit_char (n mod 10)])"

declare digits.simps [simp del]

definition str_int :: "int \<Rightarrow> string" where
  "str_int i = (if i < 0 then CHR ''-'' # digits (nat (- i)) else digits (nat i))"

text \<open>\<^verbatim>\<open>s.lower()\<close>, on ASCII letters.\<close>

definition lower_char :: "char \<Rightarrow> char" where
  "lower_char c =
     (if (65::nat) \<le> of_char c \<and> of_char c \<le> (90::nat) then char_of (of_char c + (32::nat)) else c)"

definition lower :: "string \<Rightarrow> string" where
  "lower s = map lower_char s"

text \<open>\<^verbatim>\<open>isinstance(v, int)\<close>: \<^verbatim>\<open>bool\<close> is a subclass of \<^verbatim>\<open>int\<close>.\<close>

fun is_int :: "pyval \<Rightarrow> bool" where
  "is_int (PInt n) = True"
| "is_int (PBool b) = True"
| "is_int v = False"

text \<open>
  \<^verbatim>\<open>xs[i:]\<close> on a list, for an integer \<open>i\<close>: a negative start counts from the end and is
  clipped at the front of the list.
\<close>

definition slice_from :: "int \<Rightarrow> 'a list \<Rightarrow> 'a list" where
  "slice_from i xs =
     drop (nat (if i < 0 then max (int (length xs) + i) 0 else i)) xs"

text \<open>
  \<^verbatim>\<open>xs[-v:]\<close> for a value \<open>v\<close>: the negation needs a number, and the slice an integer.
\<close>

fun slice_last :: "pyval \<Rightarrow> 'a list \<Rightarrow> error + 'a list" where
  "slice_last (PInt n) xs = Inr (slice_from (- n) xs)"
| "slice_last (PBool b) xs = Inr (slice_from (- (if b then 1 else 0)) xs)"
| "slice_last v xs = Inl TypeError"

text \<open>\<^verbatim>\<open>v <= 1\<close> and \<^verbatim>\<open>v > 0\<close>: numbers compare, anything else raises.\<close>

fun le_one :: "pyval \<Rightarrow> error + bool" where
  "le_one (PInt n) = Inr (n \<le> 1)"
| "le_one (PBool b) = Inr True"
| "le_one (PFloat r) = Inr (r \<le> 1)"
| "le_one v = Inl TypeError"

fun gt_zero :: "pyval \<Rightarrow> error + bool" where
  "gt_zero (PInt n) = Inr (0 < n)"
| "gt_zero (PBool b) = Inr b"
| "gt_zero (PFloat r) = Inr (0 < r)"
| "gt_zero v = Inl TypeError"

text \<open>\<^verbatim>\<open>v[:-1]\<close>, \<^verbatim>\<open>list(v)\<close> and \<^verbatim>\<open>v[-1]\<close> on a value.\<close>

fun slice_butlast :: "pyval \<Rightarrow> error + pyval" where
  "slice_butlast (PList xs) = Inr (PList (butlast xs))"
| "slice_butlast (PTuple xs) = Inr (PTuple (butlast xs))"
| "slice_butlast (PStr s) = Inr (PStr (butlast s))"
| "slice_butlast v = Inl TypeError"

fun to_list :: "pyval \<Rightarrow> error + pyval list" where
  "to_list (PList xs) = Inr xs"
| "to_list (PTuple xs) = Inr xs"
| "to_list (PStr s) = Inr (map (\<lambda>c. PStr [c]) s)"
| "to_list (PDict d) = Inr (map (\<lambda>(k, v). PStr k) d)"
| "to_list (PInputs d) = Inr (map (\<lambda>(k, v). PStr k) d)"
| "to_list v = Inl TypeError"

fun getitem_last :: "pyval \<Rightarrow> error + pyval" where
  "getitem_last (PList xs) = (if xs = [] then Inl IndexError else Inr (last xs))"
| "getitem_last (PTuple xs) = (if xs = [] then Inl IndexError else Inr (last xs))"
| "getitem_last (PStr s) = (if s = [] then Inl IndexError else Inr (PStr [last s]))"
| "getitem_last (PDict d) = Inl (KeyError ''-1'')"
| "getitem_last (PInputs d) = Inl (KeyError ''-1'')"
| "getitem_last v = Inl TypeError"

section \<open>Collaborators\<close>

text \<open>
  What the module calls but does not define is a parameter of the model:
  \<^item> \<open>build form args kw\<close> is \<^verbatim>\<open>layers.build(form, *args, **kw)\<close>, which may raise;
    it is taken to be a function of its arguments;
  \<^item> \<open>registry n\<close> is \<^verbatim>\<open>n in layers.Layer._registry\<close>;
  \<^item> \<open>random_streams\<close> is the object \<^verbatim>\<open>RandomStreams()\<close> returns;
  \<^item> \<open>py_repr v\<close> is \<^verbatim>\<open>repr(v)\<close> and \<open>py_str v\<close> is \<^verbatim>\<open>str(v)\<close>;
  \<^item> \<open>md5_hexdigest s\<close> is the hexadecimal MD5 digest of the bytes \<open>s\<close>;
  \<^item> \<open>layer_output l inputs noise dropout\<close> is
    \<^verbatim>\<open>l.output(inputs, noise=noise, dropout=dropout)\<close>, where \<open>inputs\<close> is either one
    expression or a list of expressions;
  \<^item> \<open>theano_function ins outs upds\<close> is
    \<^verbatim>\<open>theano.function(ins, outs, updates=upds)\<close>, which gives the compiled function or
    raises (as it does when an input is not used by any output);
  \<^item> \<open>call_function f x\<close> is the call \<^verbatim>\<open>f(x)\<close> of a compiled theano function on an
    array, which gives one array for each output or raises.
\<close>

datatype layer_inputs = Single expr | Several "expr list"

record collaborators =
  build :: "string \<Rightarrow> pyval list \<Rightarrow> kwargs \<Rightarrow> error + layer"
  registry :: "string \<Rightarrow> bool"
  random_streams :: pyval
  py_repr :: "pyval \<Rightarrow> string"
  py_str :: "pyval \<Rightarrow> string"
  md5_hexdigest :: "string \<Rightarrow> string"
  layer_output ::
    "layer \<Rightarrow> layer_inputs \<Rightarrow> pyval \<Rightarrow> pyval \<Rightarrow> expr \<times> (string \<times> expr) list \<times> (expr \<times> expr) list"
  theano_function :: "expr list \<Rightarrow> expr list \<Rightarrow> (expr \<times> expr) list \<Rightarrow> error + obj"
  call_function :: "obj \<Rightarrow> real list list \<Rightarrow> error + real list list list"

section \<open>Building the topology\<close>

subsection \<open>\<^verbatim>\<open>encoding_layers\<close>\<close>

definition encoding_layers :: "network \<Rightarrow> error + pyval" where
  "encoding_layers net =
     (case getitem (net_kwargs net) ''layers'' of
        Inl e \<Rightarrow> Inl e
      | Inr v \<Rightarrow> slice_butlast v)"

subsection \<open>One element of a tuple specification\<close>

text \<open>
  The body of \<^verbatim>\<open>for el in spec\<close>: a subclass of \<^verbatim>\<open>Layer\<close> gives the form its name
  (for any other value \<^verbatim>\<open>issubclass\<close> is false or raises the \<^verbatim>\<open>TypeError\<close> that is
  caught); a string is a form when its lower case is registered and an activation
  otherwise; an integer is the size.
\<close>

definition scan_el :: "collaborators \<Rightarrow> string \<times> kwargs \<Rightarrow> pyval \<Rightarrow> string \<times> kwargs" where
  "scan_el env fk el =
     (let form0 = fst fk; kw0 = snd fk;
          form1 = (case el of PClass n b \<Rightarrow> if b then n else form0 | _ \<Rightarrow> form0);
          form2 = (case el of PStr s \<Rightarrow> if registry env (lower s) then s else form1 | _ \<Rightarrow> form1);
          kw1 = (case el of
                   PStr s \<Rightarrow> if registry env (lower s) then kw0 else setitem kw0 ''activation'' el
                 | _ \<Rightarrow> kw0);
          kw2 = (if is_int el then setitem kw1 ''size'' el else kw1)
      in (form2, kw2))"

subsection \<open>The keyword arguments for one encoder layer\<close>

text \<open>
  The body of the loop of \<^verbatim>\<open>setup_layers\<close> for a specification that is not a
  \<^verbatim>\<open>Layer\<close> instance, up to the call of \<^verbatim>\<open>layers.build\<close>: the form and the keyword
  arguments that call receives.
\<close>

definition default_kwargs :: "network \<Rightarrow> pyval \<Rightarrow> error + kwargs" where
  "default_kwargs net rng =
     (if net_layers net = [] then Inl IndexError
      else
        let prev = last (net_layers net) in
        case map_of (l_outputs prev) ''out'' of
          None \<Rightarrow> Inl (KeyError ''out'')
        | Some out \<Rightarrow>
            Inr [(''name'', PStr (''hid'' @ str_int (int (length (net_layers net))))),
                 (''inputs'', PInputs [(l_name prev @ ''.out'', out)]),
                 (''activation'',
                    get_default (net_kwargs net) ''hidden_activation'' (PStr ''logistic'')),
                 (''rng'', rng)])"

definition encoder_request ::
    "collaborators \<Rightarrow> network \<Rightarrow> pyval \<Rightarrow> pyval \<Rightarrow> error + string \<times> kwargs" where
  "encoder_request env net rng spec =
     (case default_kwargs net rng of
        Inl e \<Rightarrow> Inl e
      | Inr kw0 \<Rightarrow>
          let n = str_int (int (length (net_layers net)));
              form0 = ''feedforward'';
              kw1 = (if is_int spec then setitem kw0 ''size'' spec else kw0);
              fk2 = (case spec of
                       PTuple els \<Rightarrow>
                         (let fk = foldl (scan_el env) (form0, kw1) els
                          in (fst fk, setitem (snd fk) ''name'' (PStr (fst fk @ n))))
                     | PList els \<Rightarrow>
                         (let fk = foldl (scan_el env) (form0, kw1) els
                          in (fst fk, setitem (snd fk) ''name'' (PStr (fst fk @ n))))
                     | _ \<Rightarrow> (form0, kw1));
              r3 = (case spec of
                      PDict d \<Rightarrow>
                        (case map_of d ''form'' of
                           None \<Rightarrow> Inr (fst fk2, update (snd fk2) d)
                         | Some (PStr f) \<Rightarrow>
                             Inr (lower f,
                                  update (setitem (snd fk2) ''name'' (PStr (lower f @ n))) d)
                         | Some v \<Rightarrow> Inl (AttributeError ''lower''))
                    | _ \<Rightarrow> Inr fk2)
          in (case r3 of
               Inl e \<Rightarrow> Inl e
             | Inr fk3 \<Rightarrow>
                 if lower (fst fk3) = ''bidirectional''
                 then Inr (fst fk3,
                           setitem (snd fk3) ''name''
                             (PStr (''bd''
                                    @ py_str env (get_default (snd fk3) ''worker'' (PStr ''rnn''))
                                    @ n)))
                 else Inr fk3))"

subsection \<open>\<^verbatim>\<open>setup_decoder\<close>\<close>

definition decoder_nin :: "pyval \<Rightarrow> int list \<Rightarrow> error + pyval" where
  "decoder_nin back sizes =
     (case le_one back of
        Inl e \<Rightarrow> Inl e
      | Inr True \<Rightarrow> (if sizes = [] then Inl IndexError else Inr (PInt (last sizes)))
      | Inr False \<Rightarrow>
          (case slice_last back sizes of
             Inl e \<Rightarrow> Inl e
           | Inr ss \<Rightarrow> Inr (PList (map PInt ss))))"

text \<open>The arguments of the call of \<^verbatim>\<open>layers.build\<close> in \<^verbatim>\<open>setup_decoder\<close>.\<close>

definition decoder_request :: "network \<Rightarrow> error + string \<times> kwargs" where
  "decoder_request net =
     (let sizes = map l_size (net_layers net);
          back = get_default (net_kwargs net) ''decode_from'' (PInt 1)
      in case decoder_nin back sizes of
           Inl e \<Rightarrow> Inl e
         | Inr nin \<Rightarrow>
             (case getitem (net_kwargs net) ''layers'' of
                Inl e \<Rightarrow> Inl e
              | Inr ls \<Rightarrow>
                  (case getitem_last ls of
                     Inl e \<Rightarrow> Inl e
                   | Inr last_spec \<Rightarrow>
                       Inr (''feedforward'',
                            [(''name'', PStr ''out''),
                             (''nin'', nin),
                             (''size'', last_spec),
                             (''activation'', output_activation net)]))))"

definition setup_decoder :: "collaborators \<Rightarrow> network \<Rightarrow> error + network" where
  "setup_decoder env net =
     (case decoder_request net of
        Inl e \<Rightarrow> Inl e
      | Inr (form, kw) \<Rightarrow>
          (case build env form [] kw of
             Inl e \<Rightarrow> Inl e
           | Inr l \<Rightarrow> Inr (net\<lparr>net_layers := net_layers net @ [l]\<rparr>)))"

subsection \<open>\<^verbatim>\<open>setup_layers\<close> and \<^verbatim>\<open>__init__\<close>\<close>

text \<open>The loop over the encoder specifications that follow the input layer.\<close>

fun encoder_loop ::
    "collaborators \<Rightarrow> pyval \<Rightarrow> pyval list \<Rightarrow> network \<Rightarrow> error + network" where
  "encoder_loop env rng [] net = Inr net"
| "encoder_loop env rng (spec # specs) net =
     (case spec of
        PLayer l \<Rightarrow> encoder_loop env rng specs (net\<lparr>net_layers := net_layers net @ [l]\<rparr>)
      | _ \<Rightarrow>
          (case encoder_request env net rng spec of
             Inl e \<Rightarrow> Inl e
           | Inr (form, kw) \<Rightarrow>
               (case build env form [] kw of
                  Inl e \<Rightarrow> Inl e
                | Inr l \<Rightarrow>
                    encoder_loop env rng specs (net\<lparr>net_layers := net_layers net @ [l]\<rparr>))))"

definition setup_layers :: "collaborators \<Rightarrow> network \<Rightarrow> error + network" where
  "setup_layers env net =
     (if \<not> has_key (net_kwargs net) ''layers'' then Inr net
      else
        case encoding_layers net of
          Inl e \<Rightarrow> Inl e
        | Inr enc \<Rightarrow>
            (case to_list enc of
               Inl e \<Rightarrow> Inl e
             | Inr specs \<Rightarrow>
                 let r = get (net_kwargs net) ''rng'';
                     rng = (if truthy r then r else random_streams env)
                 in (case specs of
                      [] \<Rightarrow> Inl IndexError
                    | spec0 # rest \<Rightarrow>
                        (case build env ''input'' [spec0] [(''rng'', rng), (''name'', PStr ''in'')] of
                           Inl e \<Rightarrow> Inl e
                         | Inr l0 \<Rightarrow>
                             (case encoder_loop env rng rest
                                     (net\<lparr>net_layers := net_layers net @ [l0]\<rparr>) of
                                Inl e \<Rightarrow> Inl e
                              | Inr net1 \<Rightarrow> setup_decoder env net1)))))"

definition init :: "collaborators \<Rightarrow> kwargs \<Rightarrow> error + network" where
  "init env kw =
     (let net0 = \<lparr>net_graphs = [], net_functions = [], net_layers = [], net_kwargs = kw,
                  net_inputs = [], net_x = None, net_weights = None, net_heap = []\<rparr>;
          vn = setup_vars net0;
          net1 = (snd vn)\<lparr>net_inputs := fst vn\<rparr>
      in setup_layers env net1)"

section \<open>The network error\<close>

text \<open>
  \<^verbatim>\<open>error\<close> builds the expression of the reconstruction error of an output expression.
\<close>

definition error :: "network \<Rightarrow> expr \<Rightarrow> error + expr" where
  "error net output =
     (case net_x net of
        None \<Rightarrow> Inl (AttributeError ''x'')
      | Some x \<Rightarrow>
          let err = Sub output x
          in if is_weighted net
             then (case net_weights net of
                     None \<Rightarrow> Inl (AttributeError ''weights'')
                   | Some w \<Rightarrow> Inr (Div (Sum (Mul (Mul w err) err)) (Sum w)))
             else Inr (Mean (Mul err err)))"

subsection \<open>The value of an expression\<close>

text \<open>
  What the expressions built by \<^verbatim>\<open>error\<close> denote, over the real numbers: a valuation
  gives the variables, the shared variables and the results of the collaborators' operations
  their values, element-wise operations need operands of one shape (a scalar combines with
  anything), and a mean over no element or a division by zero gives no finite number.
  Rounding is outside this model; gradients are not evaluated.
\<close>

datatype tensor = Scalar real | Vector "real list" | Mat "real list list"

datatype eval_error = Unbound | ShapeMismatch | NonFinite | Unsupported

fun elements :: "tensor \<Rightarrow> real list" where
  "elements (Scalar a) = [a]"
| "elements (Vector v) = v"
| "elements (Mat m) = concat m"

fun map_tensor :: "(real \<Rightarrow> real) \<Rightarrow> tensor \<Rightarrow> tensor" where
  "map_tensor f (Scalar a) = Scalar (f a)"
| "map_tensor f (Vector v) = Vector (map f v)"
| "map_tensor f (Mat m) = Mat (map (map f) m)"

fun elementwise :: "(real \<Rightarrow> real \<Rightarrow> real) \<Rightarrow> tensor \<Rightarrow> tensor \<Rightarrow> eval_error + tensor" where
  "elementwise f (Scalar a) t = Inr (map_tensor (f a) t)"
| "elementwise f (Vector u) (Scalar b) = Inr (Vector (map (\<lambda>a. f a b) u))"
| "elementwise f (Mat m) (Scalar b) = Inr (Mat (map (map (\<lambda>a. f a b)) m))"
| "elementwise f (Vector u) (Vector v) =
     (if length u = length v then Inr (Vector (map2 f u v)) else Inl ShapeMismatch)"
| "elementwise f (Mat m) (Mat n) =
     (if map length m = map length n then Inr (Mat (map2 (map2 f) m n)) else Inl ShapeMismatch)"
| "elementwise f (Vector u) (Mat n) = Inl Unsupported"
| "elementwise f (Mat m) (Vector v) = Inl Unsupported"

definition mean_list :: "real list \<Rightarrow> eval_error + real" where
  "mean_list xs = (if xs = [] then Inl NonFinite else Inr (sum_list xs / real (length xs)))"

fun mean_axis0 :: "tensor \<Rightarrow> eval_error + tensor" where
  "mean_axis0 (Scalar a) = Inl ShapeMismatch"
| "mean_axis0 (Vector v) = (case mean_list v of Inl e \<Rightarrow> Inl e | Inr a \<Rightarrow> Inr (Scalar a))"
| "mean_axis0 (Mat m) =
     (if m = [] then Inl NonFinite
      else Inr (Vector (map (\<lambda>col. sum_list col / real (length m)) (transpose m))))"

fun eval :: "(expr \<Rightarrow> tensor option) \<Rightarrow> expr \<Rightarrow> eval_error + tensor" where
  "eval val (IntLit n) = Inr (Scalar (of_int n))"
| "eval val (FloatConst r) = Inr (Scalar r)"
| "eval val (Add a b) =
     (case eval val a of Inl e \<Rightarrow> Inl e | Inr u \<Rightarrow>
        (case eval val b of Inl e \<Rightarrow> Inl e | Inr v \<Rightarrow> elementwise (+) u v))"
| "eval val (Sub a b) =
     (case eval val a of Inl e \<Rightarrow> Inl e | Inr u \<Rightarrow>
        (case eval val b of Inl e \<Rightarrow> Inl e | Inr v \<Rightarrow> elementwise (-) u v))"
| "eval val (Mul a b) =
     (case eval val a of Inl e \<Rightarrow> Inl e | Inr u \<Rightarrow>
        (case eval val b of Inl e \<Rightarrow> Inl e | Inr v \<Rightarrow> elementwise (*) u v))"
| "eval val (Div a b) =
     (case eval val a of Inl e \<Rightarrow> Inl e | Inr u \<Rightarrow>
        (case eval val b of Inl e \<Rightarrow> Inl e | Inr v \<Rightarrow>
           if 0 \<in> set (elements v) then Inl NonFinite else elementwise (/) u v))"
| "eval val (Abs a) = (case eval val a of Inl e \<Rightarrow> Inl e | Inr u \<Rightarrow> Inr (map_tensor abs u))"
| "eval val (Sqr a) =
     (case eval val a of Inl e \<Rightarrow> Inl e | Inr u \<Rightarrow> Inr (map_tensor (\<lambda>r. r * r) u))"
| "eval val (Sum a) =
     (case eval val a of Inl e \<Rightarrow> Inl e | Inr u \<Rightarrow> Inr (Scalar (sum_list (elements u))))"
| "eval val (Mean a) =
     (case eval val a of Inl e \<Rightarrow> Inl e | Inr u \<Rightarrow>
        (case mean_list (elements u) of Inl e \<Rightarrow> Inl e | Inr r \<Rightarrow> Inr (Scalar r)))"
| "eval val (MeanAxis0 a) = (case eval val a of Inl e \<Rightarrow> Inl e | Inr u \<Rightarrow> mean_axis0 u)"
| "eval val (Grad a b) = Inl Unsupported"
| "eval val leaf = (case val leaf of None \<Rightarrow> Inl Unbound | Some t \<Rightarrow> Inr t)"

subsection \<open>The error as the specification words it\<close>

text \<open>
  \<^verbatim>\<open>mean((y-x)**2)\<close> and \<^verbatim>\<open>sum(w*(y-x)**2) / sum(w)\<close>, over all elements of the
  matrices.
\<close>

definition spec_mean_sq :: "real list list \<Rightarrow> real list list \<Rightarrow> real" where
  "spec_mean_sq x y =
     (\<Sum>(a, b)\<leftarrow>zip (concat x) (concat y). (b - a)\<^sup>2) / real (length (concat x))"

definition spec_weighted :: "real list list \<Rightarrow> real list list \<Rightarrow> real list list \<Rightarrow> real" where
  "spec_weighted w x y =
     (\<Sum>(c, a, b)\<leftarrow>zip (concat w) (zip (concat x) (concat y)). c * (b - a)\<^sup>2)
       / sum_list (concat w)"

text \<open>
  The literal example: \<open>x = [[1,0],[0,1]]\<close>, \<open>y = [[0,0],[0,0]]\<close> (the value of the
  output expression) and \<open>w = [[1,1],[0,0]]\<close>, for a network with or without weights.
\<close>

definition example_val :: "expr \<Rightarrow> tensor option" where
  "example_val e =
     (if e = Matrix ''x'' then Some (Mat [[1, 0], [0, 1]])
      else if e = Matrix ''weights'' then Some (Mat [[1, 1], [0, 0]])
      else if e = Apply ''out'' [] then Some (Mat [[0, 0], [0, 0]])
      else None)"

definition example_net :: "bool \<Rightarrow> network" where
  "example_net w =
     \<lparr>net_graphs = [], net_functions = [], net_layers = [],
      net_kwargs = [(''weighted'', PBool w)], net_inputs = [],
      net_x = Some (Matrix ''x''), net_weights = Some (Matrix ''weights''), net_heap = []\<rparr>"

section \<open>Graphs, caches and the loss\<close>

subsection \<open>The key of a graph\<close>

text \<open>
  \<^verbatim>\<open>_hash\<close> feeds MD5 with \<^verbatim>\<open>str(kwargs)\<close> and then, for every layer, with the name
  of its class, its name and its size. \<open>dict_str\<close> is \<^verbatim>\<open>str\<close> of a dictionary with
  string keys, in insertion order; \<open>hash_input\<close> is everything the digest receives.
\<close>

fun join :: "string \<Rightarrow> string list \<Rightarrow> string" where
  "join sep [] = []"
| "join sep [s] = s"
| "join sep (s # t # ss) = s @ sep @ join sep (t # ss)"

definition dict_str :: "collaborators \<Rightarrow> kwargs \<Rightarrow> string" where
  "dict_str env d =
     ''{'' @ join '', '' (map (\<lambda>(k, v). py_repr env (PStr k) @ '': '' @ py_repr env v) d) @ ''}''"

definition layer_str :: "layer \<Rightarrow> string" where
  "layer_str l = l_class l @ l_name l @ str_int (l_size l)"

definition hash_input :: "collaborators \<Rightarrow> network \<Rightarrow> kwargs \<Rightarrow> string" where
  "hash_input env net kw = dict_str env kw @ concat (map layer_str (net_layers net))"

definition hash :: "collaborators \<Rightarrow> network \<Rightarrow> kwargs \<Rightarrow> string" where
  "hash env net kw = md5_hexdigest env (hash_input env net kw)"

subsection \<open>\<^verbatim>\<open>build_graph\<close>\<close>

text \<open>
  The inputs, noise and dropout that the loop of \<^verbatim>\<open>build_graph\<close> passes to the layer at
  position \<open>i\<close>, given the outputs of the layers before it: the first layer gets the
  network input, the last one the slice \<^verbatim>\<open>outputs[-decode_from:]\<close>, any other the last
  output, with no noise and no dropout.
\<close>

definition layer_args ::
    "network \<Rightarrow> kwargs \<Rightarrow> nat \<Rightarrow> expr list \<Rightarrow> error + layer_inputs \<times> pyval \<times> pyval" where
  "layer_args net kw i outputs =
     (if i = 0 then
        (case net_x net of
           None \<Rightarrow> Inl (AttributeError ''x'')
         | Some x \<Rightarrow>
             Inr (Single x, get_default kw ''input_noise'' (PInt 0),
                  get_default kw ''input_dropouts'' (PInt 0)))
      else if int i = int (length (net_layers net)) - 1 then
        (case slice_last (get_default (net_kwargs net) ''decode_from'' (PInt 1)) outputs of
           Inl e \<Rightarrow> Inl e
         | Inr ins \<Rightarrow>
             Inr (Several ins, get_default kw ''hidden_noise'' (PInt 0),
                  get_default kw ''hidden_dropouts'' (PInt 0)))
      else if outputs = [] then Inl IndexError
      else Inr (Single (last outputs), PInt 0, PInt 0))"

text \<open>The loop itself, over the layers from position \<open>i\<close> on.\<close>

type_synonym graph = "expr list \<times> (string \<times> expr) list \<times> (expr \<times> expr) list"

fun graph_loop ::
    "collaborators \<Rightarrow> network \<Rightarrow> kwargs \<Rightarrow> nat \<Rightarrow> layer list \<Rightarrow> graph \<Rightarrow> error + graph" where
  "graph_loop env net kw i [] g = Inr g"
| "graph_loop env net kw i (l # ls) g =
     (case layer_args net kw i (fst g) of
        Inl e \<Rightarrow> Inl e
      | Inr (inputs, noise, dropout) \<Rightarrow>
          (case layer_output env l inputs noise dropout of
             (out, mon, upd) \<Rightarrow>
               graph_loop env net kw (Suc i) ls
                 (fst g @ [out], fst (snd g) @ mon, snd (snd g) @ upd)))"

text \<open>
  On a miss, the three lists and the tuple that holds them are new objects in the store,
  and the cache maps the key to the tuple; on a hit, the cached tuple is returned.
\<close>

definition build_graph :: "collaborators \<Rightarrow> kwargs \<Rightarrow> network \<Rightarrow> error + nat \<times> network" where
  "build_graph env kw net =
     (let key = hash env net kw
      in case map_of (net_graphs net) key of
           Some t \<Rightarrow> Inr (t, net)
         | None \<Rightarrow>
             (case graph_loop env net kw 0 (net_layers net) ([], [], []) of
                Inl e \<Rightarrow> Inl e
              | Inr (outputs, monitors, updates) \<Rightarrow>
                  let a = length (net_heap net);
                      heap = net_heap net @ [ExprList outputs, MonList monitors, UpdList updates,
                                             Tuple3 a (a + 1) (a + 2)];
                      t = a + 3
                  in Inr (t, net\<lparr>net_graphs := setitem (net_graphs net) key t,
                                 net_heap := heap\<rparr>)))"

text \<open>
  Reading an object, and unpacking a tuple of three lists
  (\<^verbatim>\<open>outputs, monitors, updates = ...\<close>).
\<close>

definition deref :: "obj list \<Rightarrow> nat \<Rightarrow> error + obj" where
  "deref heap a = (if a < length heap then Inr (heap ! a) else Inl TypeError)"

definition unpack_graph :: "obj list \<Rightarrow> nat \<Rightarrow> error + graph" where
  "unpack_graph heap t =
     (case deref heap t of
        Inr (Tuple3 ao am au) \<Rightarrow>
          (case (deref heap ao, deref heap am, deref heap au) of
             (Inr (ExprList outputs), Inr (MonList monitors), Inr (UpdList updates)) \<Rightarrow>
               Inr (outputs, monitors, updates)
           | _ \<Rightarrow> Inl TypeError)
      | _ \<Rightarrow> Inl TypeError)"

definition cached_monitors :: "network \<Rightarrow> nat \<Rightarrow> (string \<times> expr) list" where
  "cached_monitors net t =
     (case unpack_graph (net_heap net) t of Inl e \<Rightarrow> [] | Inr (outputs, monitors, updates) \<Rightarrow> monitors)"

subsection \<open>\<^verbatim>\<open>feed_forward\<close> and \<^verbatim>\<open>predict\<close>\<close>

text \<open>
  \<open>get_function\<close> is the part of \<^verbatim>\<open>feed_forward\<close> before the call: the compiled
  function for the key. On a miss the graph is built (and cached) first, then compiled from
  the current contents of its lists; the function is stored only when the compilation
  returns. The network is returned in every case, since an exception after
  \<^verbatim>\<open>build_graph\<close> leaves the graph cached.
\<close>

definition get_function ::
    "collaborators \<Rightarrow> kwargs \<Rightarrow> network \<Rightarrow> (error + nat) \<times> network" where
  "get_function env kw net =
     (let key = hash env net kw
      in case map_of (net_functions net) key of
           Some f \<Rightarrow> (Inr f, net)
         | None \<Rightarrow>
             (case build_graph env kw net of
                Inl e \<Rightarrow> (Inl e, net)
              | Inr (t, net1) \<Rightarrow>
                  (case unpack_graph (net_heap net1) t of
                     Inl e \<Rightarrow> (Inl e, net1)
                   | Inr (outputs, monitors, updates) \<Rightarrow>
                       (case net_x net1 of
                          None \<Rightarrow> (Inl (AttributeError ''x''), net1)
                        | Some x \<Rightarrow>
                            (case theano_function env [x] outputs updates of
                               Inl e \<Rightarrow> (Inl e, net1)
                             | Inr fn \<Rightarrow>
                                 (Inr (length (net_heap net1)),
                                  net1\<lparr>net_functions :=
                                         setitem (net_functions net1) key (length (net_heap net1)),
                                       net_heap := net_heap net1 @ [fn]\<rparr>))))))"

definition feed_forward ::
    "collaborators \<Rightarrow> real list list \<Rightarrow> kwargs \<Rightarrow> network
      \<Rightarrow> (error + real list list list) \<times> network" where
  "feed_forward env x kw net =
     (case get_function env kw net of
        (Inl e, net1) \<Rightarrow> (Inl e, net1)
      | (Inr f, net1) \<Rightarrow>
          (case deref (net_heap net1) f of
             Inl e \<Rightarrow> (Inl e, net1)
           | Inr fn \<Rightarrow> (call_function env fn x, net1)))"

definition predict ::
    "collaborators \<Rightarrow> real list list \<Rightarrow> network \<Rightarrow> (error + real list list) \<times> network" where
  "predict env x net =
     (case feed_forward env x [] net of
        (Inl e, net1) \<Rightarrow> (Inl e, net1)
      | (Inr ys, net1) \<Rightarrow> (if ys = [] then Inl IndexError else Inr (last ys), net1))"

subsection \<open>\<^verbatim>\<open>loss\<close>\<close>

definition extra_monitors :: "network \<Rightarrow> expr list \<Rightarrow> (string \<times> expr) list" where
  "extra_monitors net outputs = []"

definition py_sum :: "expr list \<Rightarrow> expr" where
  "py_sum es = foldl Add (IntLit 0) es"

definition params :: "network \<Rightarrow> nat list" where
  "params net = concat (map l_params (net_layers net))"

definition regularizers :: "network \<Rightarrow> expr \<Rightarrow> expr list \<Rightarrow> (string \<times> expr list) list" where
  "regularizers net x hiddens =
     [(''weight_l1'', map (\<lambda>w. Sum (Abs (Shared w))) (params net)),
      (''weight_l2'', map (\<lambda>w. Sum (Mul (Shared w) (Shared w))) (params net)),
      (''hidden_l1'', map (\<lambda>h. Sum (MeanAxis0 (Abs h))) hiddens),
      (''hidden_l2'', map (\<lambda>h. Sum (MeanAxis0 (Mul h h))) hiddens),
      (''contractive'', map (\<lambda>h. Sum (Sqr (Grad (Sum (MeanAxis0 h)) x))) hiddens)]"

fun cast_float :: "pyval \<Rightarrow> expr" where
  "cast_float (PInt n) = FloatConst (of_int n)"
| "cast_float (PBool b) = FloatConst (if b then 1 else 0)"
| "cast_float (PFloat r) = FloatConst r"
| "cast_float v = FloatConst 0"

fun regularization :: "kwargs \<Rightarrow> (string \<times> expr list) list \<Rightarrow> error + expr list" where
  "regularization kw [] = Inr []"
| "regularization kw ((weight, es) # rs) =
     (case gt_zero (get_default kw weight (PInt 0)) of
        Inl e \<Rightarrow> Inl e
      | Inr b \<Rightarrow>
          (case regularization kw rs of
             Inl e \<Rightarrow> Inl e
           | Inr ts \<Rightarrow>
               Inr (if b then Mul (cast_float (get kw weight)) (py_sum es) # ts else ts)))"

text \<open>
  \<^verbatim>\<open>loss\<close> unpacks the tuple that \<^verbatim>\<open>build_graph\<close> returns and then changes the list
  \<^verbatim>\<open>monitors\<close> in place (\<^verbatim>\<open>insert\<close>, \<^verbatim>\<open>extend\<close>): the object at the address of that
  list is updated in the store. The result is the loss expression with the references to
  the monitors and the updates; the network is returned in both cases, since an exception
  after the insertion leaves the list changed.
\<close>

definition loss ::
    "collaborators \<Rightarrow> kwargs \<Rightarrow> network \<Rightarrow> (error + expr \<times> nat \<times> nat) \<times> network" where
  "loss env kw net =
     (case build_graph env kw net of
        Inl e \<Rightarrow> (Inl e, net)
      | Inr (t, net1) \<Rightarrow>
          (case deref (net_heap net1) t of
             Inr (Tuple3 ao am au) \<Rightarrow>
               (case (deref (net_heap net1) ao, deref (net_heap net1) am) of
                  (Inr (ExprList outputs), Inr (MonList monitors)) \<Rightarrow>
                    if outputs = [] then (Inl IndexError, net1)
                    else
                      (case error net1 (last outputs) of
                         Inl e \<Rightarrow> (Inl e, net1)
                       | Inr err \<Rightarrow>
                           let monitors1 = (''err'', err) # monitors;
                               monitors2 = monitors1 @ extra_monitors net1 outputs;
                               net2 = net1\<lparr>net_heap := (net_heap net1)[am := MonList monitors2]\<rparr>;
                               hiddens = butlast (tl outputs)
                           in (case net_x net2 of
                                None \<Rightarrow> (Inl (AttributeError ''x''), net2)
                              | Some x \<Rightarrow>
                                  (case regularization kw (regularizers net2 x hiddens) of
                                     Inl e \<Rightarrow> (Inl e, net2)
                                   | Inr terms \<Rightarrow>
                                       (Inr (Add err (py_sum terms), am, au), net2))))
                | _ \<Rightarrow> (Inl TypeError, net1))
           | _ \<Rightarrow> (Inl TypeError, net1)))"

section \<open>Loading parameters\<close>

text \<open>
  A pickle file is its contents and whether it is gzipped; reading it with the opener the
  file name selects fails when the two disagree or the file does not exist. Of the
  persisted record only the entries \<^verbatim>\<open>'{name}-values'\<close> are modelled (the keys
  \<^verbatim>\<open>klass\<close> and \<^verbatim>\<open>kwargs\<close> do not end in \<^verbatim>\<open>-values\<close>). The values of the shared
  variables are a store from variables to values, which \<^verbatim>\<open>set_value\<close> updates.
\<close>

record 'a pickle_file =
  gzipped :: bool
  content :: 'a

definition ends_with :: "string \<Rightarrow> string \<Rightarrow> bool" where
  "ends_with s suffix =
     (length suffix \<le> length s \<and> drop (length s - length suffix) s = suffix)"

definition read_pickle :: "(string \<Rightarrow> 'a pickle_file option) \<Rightarrow> string \<Rightarrow> error + 'a" where
  "read_pickle fs filename =
     (case fs filename of
        None \<Rightarrow> Inl (IOError filename)
      | Some f \<Rightarrow>
          if gzipped f = ends_with (lower filename) ''.gz'' then Inr (content f)
          else Inl (IOError filename))"

type_synonym 'v saved = "(string \<times> 'v list) list"

definition values_key :: "layer \<Rightarrow> string" where
  "values_key l = l_name l @ ''-values''"

text \<open>\<^verbatim>\<open>for p, v in zip(layer.params, values): p.set_value(v)\<close>.\<close>

fun set_values :: "nat list \<Rightarrow> 'v list \<Rightarrow> (nat \<Rightarrow> 'v) \<Rightarrow> (nat \<Rightarrow> 'v)" where
  "set_values (p # ps) (v # vs) st = set_values ps vs (st(p := v))"
| "set_values ps vs st = st"

text \<open>
  The loop over the layers: \<^verbatim>\<open>saved[key]\<close> raises \<^verbatim>\<open>KeyError\<close> for a missing key,
  with the store as the layers before have left it.
\<close>

fun load_layers :: "'v saved \<Rightarrow> layer list \<Rightarrow> (nat \<Rightarrow> 'v) \<Rightarrow> error option \<times> (nat \<Rightarrow> 'v)" where
  "load_layers saved [] st = (None, st)"
| "load_layers saved (l # ls) st =
     (case map_of saved (values_key l) of
        None \<Rightarrow> (Some (KeyError (values_key l)), st)
      | Some vs \<Rightarrow> load_layers saved ls (set_values (l_params l) vs st))"

definition load_params ::
    "(string \<Rightarrow> 'v saved pickle_file option) \<Rightarrow> string \<Rightarrow> network \<Rightarrow> (nat \<Rightarrow> 'v)
      \<Rightarrow> error option \<times> (nat \<Rightarrow> 'v)" where
  "load_params fs filename net st =
     (case read_pickle fs filename of
        Inl e \<Rightarrow> (Some e, st)
      | Inr saved \<Rightarrow> load_layers saved (net_layers net) st)"

section \<open>Notions used in the statements\<close>

text \<open>
  Two encodings of the same hidden layer: a bare integer \<open>n\<close> and the dictionary
  \<^verbatim>\<open>{'size': n}\<close>.
\<close>

definition size_encoding :: "pyval \<Rightarrow> pyval \<Rightarrow> bool" where
  "size_encoding a b = (a = b \<or> (\<exists>n. a = PInt n \<and> b = PDict [(''size'', PInt n)]))"

text \<open>
  Two networks agree when they have the same layers and the same options, the option
  \<^verbatim>\<open>layers\<close> apart.
\<close>

definition agree :: "network \<Rightarrow> network \<Rightarrow> bool" where
  "agree a b =
     (net_layers a = net_layers b
      \<and> (\<forall>k. k \<noteq> ''layers'' \<longrightarrow> map_of (net_kwargs a) k = map_of (net_kwargs b) k))"

text \<open>
  A layer factory that never raises and whose layers all have an output named
  \<^verbatim>\<open>out\<close>; a specification element on which the normalisation itself cannot raise
  (a dictionary whose \<^verbatim>\<open>form\<close>, if any, is a string; a layer instance with an output
  \<^verbatim>\<open>out\<close>; anything else); a network whose last layer has an output \<^verbatim>\<open>out\<close>.
\<close>

definition factory_total :: "collaborators \<Rightarrow> bool" where
  "factory_total env =
     (\<forall>form args kw. \<exists>l. build env form args kw = Inr l \<and> map_of (l_outputs l) ''out'' \<noteq> None)"

fun spec_accepted :: "pyval \<Rightarrow> bool" where
  "spec_accepted (PDict d) =
     (case map_of d ''form'' of None \<Rightarrow> True | Some (PStr f) \<Rightarrow> True | Some v \<Rightarrow> False)"
| "spec_accepted (PLayer l) = (map_of (l_outputs l) ''out'' \<noteq> None)"
| "spec_accepted v = True"

definition has_out :: "network \<Rightarrow> bool" where
  "has_out net =
     (net_layers net \<noteq> [] \<and> map_of (l_outputs (last (net_layers net))) ''out'' \<noteq> None)"

text \<open>
  The graph that \<^verbatim>\<open>build_graph\<close> builds for the options \<open>kw\<close>, if it builds one,
  compiles: \<^verbatim>\<open>theano.function\<close> returns a function for its outputs and updates.
\<close>

definition compiles :: "collaborators \<Rightarrow> network \<Rightarrow> kwargs \<Rightarrow> bool" where
  "compiles env net kw =
     (case (net_x net, graph_loop env net kw 0 (net_layers net) ([], [], [])) of
        (Some x, Inr (outputs, monitors, updates)) \<Rightarrow>
          (case theano_function env [x] outputs updates of Inl e \<Rightarrow> False | Inr fn \<Rightarrow> True)
      | _ \<Rightarrow> True)"

text \<open>
  A layer whose key is in the persisted record, and loading one layer when it is.
\<close>

definition present :: "'v saved \<Rightarrow> layer \<Rightarrow> bool" where
  "present saved l = (map_of saved (values_key l) \<noteq> None)"

definition load_layer :: "'v saved \<Rightarrow> (nat \<Rightarrow> 'v) \<Rightarrow> layer \<Rightarrow> (nat \<Rightarrow> 'v)" where
  "load_layer saved st l =
     (case map_of saved (values_key l) of None \<Rightarrow> st | Some vs \<Rightarrow> set_values (l_params l) vs st)"

subsection \<open>A simple instance of the collaborators\<close>

text \<open>
  To run the model on concrete inputs: a factory that builds a layer with the requested
  name and size and no parameters, a registry of three forms, a layer transform that
  applies an operation named after the layer to the inputs it receives and monitors its
  mean, the identity for the digest, a compilation that fails when there is no output (the
  input is then unused), and a function call that returns its argument for every output.
\<close>

definition plain_build :: "string \<Rightarrow> pyval list \<Rightarrow> kwargs \<Rightarrow> error + layer" where
  "plain_build form args kw =
     (let nm = (case map_of kw ''name'' of Some (PStr s) \<Rightarrow> s | _ \<Rightarrow> form);
          sz = (case args of
                  [PInt n] \<Rightarrow> n
                | _ \<Rightarrow> (case map_of kw ''size'' of Some (PInt n) \<Rightarrow> n | _ \<Rightarrow> 0))
      in Inr \<lparr>l_class = form, l_name = nm, l_size = sz, l_params = [],
              l_outputs = [(''out'', Apply (nm @ ''.out'') [])]\<rparr>)"

definition plain_str :: "pyval \<Rightarrow> string" where
  "plain_str v = (case v of PStr s \<Rightarrow> s | PInt n \<Rightarrow> str_int n | _ \<Rightarrow> ''object'')"

definition plain_repr :: "pyval \<Rightarrow> string" where
  "plain_repr v =
     (case v of PStr s \<Rightarrow> [CHR 0x27] @ s @ [CHR 0x27] | PInt n \<Rightarrow> str_int n | _ \<Rightarrow> ''object'')"

definition plain_output ::
    "layer \<Rightarrow> layer_inputs \<Rightarrow> pyval \<Rightarrow> pyval
      \<Rightarrow> expr \<times> (string \<times> expr) list \<times> (expr \<times> expr) list" where
  "plain_output l i noise dropout =
     (let out = Apply (l_name l) (case i of Single e \<Rightarrow> [e] | Several es \<Rightarrow> es)
      in (out, [(l_name l @ ''.mean'', Mean out)], []))"

definition plain_compile :: "expr list \<Rightarrow> expr list \<Rightarrow> (expr \<times> expr) list \<Rightarrow> error + obj" where
  "plain_compile ins outs upds =
     (if outs = [] then Inl (TheanoError ''UnusedInputError'') else Inr (Function ins outs upds))"

definition plain_call :: "obj \<Rightarrow> real list list \<Rightarrow> error + real list list list" where
  "plain_call f x = (case f of Function ins outs upds \<Rightarrow> Inr (map (\<lambda>e. x) outs) | _ \<Rightarrow> Inl TypeError)"

definition plain :: collaborators where
  "plain = \<lparr>build = plain_build,
            registry = (\<lambda>n. n = ''feedforward'' \<or> n = ''input'' \<or> n = ''rnn''),
            random_streams = PRng 0,
            py_repr = plain_repr,
            py_str = plain_str,
            md5_hexdigest = (\<lambda>s. s),
            layer_output = plain_output,
            theano_function = plain_compile,
            call_function = plain_call\<rparr>"

text \<open>
  The networks that the constructor builds with these collaborators from the topologies
  \<open>[5, 4, 4, 3]\<close> (with \<^verbatim>\<open>decode_from=2\<close>) and \<open>[5, 3]\<close>; a network whose layers have
  parameters, and two pickle files for it, one without the entry of the hidden layer.
\<close>

definition plain_layer :: "string \<Rightarrow> string \<Rightarrow> int \<Rightarrow> layer" where
  "plain_layer form nm sz =
     \<lparr>l_class = form, l_name = nm, l_size = sz, l_params = [],
      l_outputs = [(''out'', Apply (nm @ ''.out'') [])]\<rparr>"

definition four_layer_net :: network where
  "four_layer_net =
     \<lparr>net_graphs = [], net_functions = [],
      net_layers = [plain_layer ''input'' ''in'' 5, plain_layer ''feedforward'' ''hid1'' 4,
                    plain_layer ''feedforward'' ''hid2'' 4, plain_layer ''feedforward'' ''out'' 3],
      net_kwargs = [(''layers'', PList [PInt 5, PInt 4, PInt 4, PInt 3]),
                    (''decode_from'', PInt 2)],
      net_inputs = [Matrix ''x''], net_x = Some (Matrix ''x''),
      net_weights = Some (Matrix ''weights''), net_heap = []\<rparr>"

definition two_layer_net :: network where
  "two_layer_net =
     \<lparr>net_graphs = [], net_functions = [],
      net_layers = [plain_layer ''input'' ''in'' 5, plain_layer ''feedforward'' ''out'' 3],
      net_kwargs = [(''layers'', PList [PInt 5, PInt 3])],
      net_inputs = [Matrix ''x''], net_x = Some (Matrix ''x''),
      net_weights = Some (Matrix ''weights''), net_heap = []\<rparr>"

definition in_out :: network where
  "in_out =
     \<lparr>net_graphs = [], net_functions = [],
      net_layers = [\<lparr>l_class = ''Input'', l_name = ''in'', l_size = 2, l_params = [],
                     l_outputs = [(''out'', Apply ''in.out'' [])]\<rparr>,
                    \<lparr>l_class = ''Feedforward'', l_name = ''hid1'', l_size = 3, l_params = [0, 1],
                     l_outputs = [(''out'', Apply ''hid1.out'' [])]\<rparr>,
                    \<lparr>l_class = ''Feedforward'', l_name = ''out'', l_size = 2, l_params = [2, 3],
                     l_outputs = [(''out'', Apply ''out.out'' [])]\<rparr>],
      net_kwargs = [(''layers'', PList [PInt 2, PInt 3, PInt 2])],
      net_inputs = [Matrix ''x''], net_x = Some (Matrix ''x''),
      net_weights = Some (Matrix ''weights''), net_heap = []\<rparr>"

definition disk :: "string \<Rightarrow> int saved pickle_file option" where
  "disk name =
     (if name = ''partial.pkl''
      then Some \<lparr>gzipped = False, content = [(''in-values'', []), (''out-values'', [7, 8])]\<rparr>
      else if name = ''full.pkl''
      then Some \<lparr>gzipped = False,
                 content = [(''in-values'', []), (''hid1-values'', [5, 6]), (''out-values'', [7, 8])]\<rparr>
      else None)"

section \<open>Properties\<close>

lemma setup_vars_kwargs: "net_kwargs (snd (setup_vars net)) = net_kwargs net"
  by (simp add: setup_vars_def Let_def)

text \<open>
  Claim C9. The list of input variables returned by \<^verbatim>\<open>setup_vars\<close> (which
  \<^verbatim>\<open>__init__\<close> stores as \<^verbatim>\<open>inputs\<close>) is \<open>[x, weights]\<close> when the \<^verbatim>\<open>weighted\<close> option
  is true in Python's sense, and \<open>[x]\<close> otherwise; so the variable \<^verbatim>\<open>weights\<close> is among
  the inputs exactly when the network is weighted. (The attribute \<^verbatim>\<open>weights\<close> itself is
  set in both cases.)
\<close>

theorem setup_vars_inputs:
  "fst (setup_vars net) =
     (if is_weighted net then [Matrix ''x'', Matrix ''weights''] else [Matrix ''x''])
   \<and> (Matrix ''weights'' \<in> set (fst (setup_vars net)) \<longleftrightarrow> is_weighted net)
   \<and> net_x (snd (setup_vars net)) = Some (Matrix ''x'')
   \<and> net_weights (snd (setup_vars net)) = Some (Matrix ''weights'')"
  by (simp add: setup_vars_def is_weighted_def Let_def)

subsection \<open>The topology builder\<close>

lemma encoder_loop_length:
  "encoder_loop env rng specs net = Inr net' \<Longrightarrow>
     length (net_layers net') = length (net_layers net) + length specs
     \<and> net_kwargs net' = net_kwargs net"
proof (induction specs arbitrary: net)
  case Nil
  then show ?case by simp
next
  case (Cons spec specs)
  show ?case
  proof (cases "\<exists>l. spec = PLayer l")
    case True
    then obtain l where "spec = PLayer l" by blast
    with Cons.prems have "encoder_loop env rng specs (net\<lparr>net_layers := net_layers net @ [l]\<rparr>) = Inr net'"
      by simp
    from Cons.IH [OF this] show ?thesis by simp
  next
    case False
    then have step: "encoder_loop env rng (spec # specs) net =
        (case encoder_request env net rng spec of
             Inl e \<Rightarrow> Inl e
           | Inr (form, kw) \<Rightarrow>
               (case build env form [] kw of
                  Inl e \<Rightarrow> Inl e
                | Inr l \<Rightarrow>
                    encoder_loop env rng specs (net\<lparr>net_layers := net_layers net @ [l]\<rparr>)))"
      by (cases spec) simp_all
    with Cons.prems obtain l where
      "encoder_loop env rng specs (net\<lparr>net_layers := net_layers net @ [l]\<rparr>) = Inr net'"
      by (auto split: sum.splits prod.splits)
    from Cons.IH [OF this] show ?thesis by simp
  qed
qed

lemma setup_decoder_length:
  "setup_decoder env net = Inr net' \<Longrightarrow>
     length (net_layers net') = length (net_layers net) + 1"
  by (auto simp: setup_decoder_def split: sum.splits prod.splits)

lemma setup_layers_length:
  assumes "map_of (net_kwargs net) ''layers'' = Some (c specs)" and "c = PList \<or> c = PTuple"
    and "setup_layers env net = Inr net'"
  shows "length (net_layers net') = length (net_layers net) + length specs \<and> 2 \<le> length specs"
proof -
  from assms(1,2) have enc: "encoding_layers net = Inr (c (butlast specs))"
    by (auto simp: encoding_layers_def getitem_def)
  from assms(2) have tl: "to_list (c (butlast specs)) = Inr (butlast specs)" by auto
  from assms(1) have hk: "has_key (net_kwargs net) ''layers''" by (simp add: has_key_def)
  obtain spec0 rest where bl: "butlast specs = spec0 # rest"
    using assms(3) hk enc tl by (cases "butlast specs") (simp_all add: setup_layers_def Let_def)
  from assms(3) hk enc tl bl obtain l0 net1 where
     lp: "encoder_loop env (if truthy (get (net_kwargs net) ''rng'') then get (net_kwargs net) ''rng'' else random_streams env) rest (net\<lparr>net_layers := net_layers net @ [l0]\<rparr>) = Inr net1"
     and dec: "setup_decoder env net1 = Inr net'"
    by (auto simp: setup_layers_def Let_def split: sum.splits)
  from encoder_loop_length [OF lp] setup_decoder_length [OF dec]
  have "length (net_layers net') = length (net_layers net) + length (butlast specs) + 1"
    using bl by simp
  moreover from bl have "specs \<noteq> []" by auto
  moreover from bl have "1 \<le> length (butlast specs)" by simp
  ultimately show ?thesis by (simp del: length_butlast) (simp)
qed

lemma init_length:
  assumes "map_of kw ''layers'' = Some (c specs)" and "c = PList \<or> c = PTuple"
    and "init env kw = Inr net"
  shows "length (net_layers net) = length specs \<and> 2 \<le> length specs"
proof -
  let ?n0 = "\<lparr>net_graphs = [], net_functions = [], net_layers = [], net_kwargs = kw,
                  net_inputs = [], net_x = None, net_weights = None, net_heap = []\<rparr>"
  let ?n1 = "(snd (setup_vars ?n0))\<lparr>net_inputs := fst (setup_vars ?n0)\<rparr>"
  have k: "net_kwargs ?n1 = kw" and l: "net_layers ?n1 = []"
    by (simp_all add: setup_vars_def Let_def)
  from assms(3) have "setup_layers env ?n1 = Inr net" by (simp add: init_def Let_def)
  from setup_layers_length [OF _ assms(2) this, of specs] assms(1) k l show ?thesis by simp
qed


lemma default_kwargs_ok: "has_out net \<Longrightarrow> \<exists>kw. default_kwargs net rng = Inr kw"
  by (auto simp: has_out_def default_kwargs_def Let_def)

lemma encoder_request_ok:
  assumes "has_out net" and "spec_accepted spec"
  shows "\<exists>fk. encoder_request env net rng spec = Inr fk"
proof -
  from default_kwargs_ok [OF assms(1)] obtain kw0 where kw0: "default_kwargs net rng = Inr kw0" ..
  show ?thesis
  proof (cases "\<exists>d. spec = PDict d")
    case True
    then obtain d where d: "spec = PDict d" ..
    with assms(2) show ?thesis
      by (auto simp: encoder_request_def kw0 Let_def split: option.splits pyval.splits)
  next
    case False
    then show ?thesis
      by (cases spec) (auto simp: encoder_request_def kw0 Let_def)
  qed
qed

lemma encoder_loop_ok:
  assumes "factory_total env"
  shows "has_out net \<Longrightarrow> list_all spec_accepted specs \<Longrightarrow>
         \<exists>net'. encoder_loop env rng specs net = Inr net' \<and> net_layers net' \<noteq> []"
proof (induction specs arbitrary: net)
  case Nil
  then show ?case by (simp add: has_out_def)
next
  case (Cons spec specs)
  show ?case
  proof (cases "\<exists>l. spec = PLayer l")
    case True
    then obtain l where l: "spec = PLayer l" ..
    with Cons.prems have "has_out (net\<lparr>net_layers := net_layers net @ [l]\<rparr>)"
      by (simp add: has_out_def)
    from Cons.IH [OF this] Cons.prems(2) l show ?thesis by simp
  next
    case False
    then have step: "encoder_loop env rng (spec # specs) net =
        (case encoder_request env net rng spec of
             Inl e \<Rightarrow> Inl e
           | Inr (form, kw) \<Rightarrow>
               (case build env form [] kw of
                  Inl e \<Rightarrow> Inl e
                | Inr l \<Rightarrow>
                    encoder_loop env rng specs (net\<lparr>net_layers := net_layers net @ [l]\<rparr>)))"
      by (cases spec) simp_all
    from Cons.prems encoder_request_ok obtain form kw where
      rq: "encoder_request env net rng spec = Inr (form, kw)" by fastforce
    from assms obtain l where
      b: "build env form [] kw = Inr l" and o: "map_of (l_outputs l) ''out'' \<noteq> None"
      unfolding factory_total_def by blast
    from o have "has_out (net\<lparr>net_layers := net_layers net @ [l]\<rparr>)"
      by (simp add: has_out_def)
    from Cons.IH [OF this] Cons.prems(2) show ?thesis
      unfolding step by (simp add: rq b)
  qed
qed

lemma decoder_request_eq:
  assumes "map_of (net_kwargs net) ''layers'' = Some (c specs)" and "c = PList \<or> c = PTuple"
    and "specs \<noteq> []"
  shows "decoder_request net =
     (case decoder_nin (get_default (net_kwargs net) ''decode_from'' (PInt 1))
             (map l_size (net_layers net)) of
        Inl e \<Rightarrow> Inl e
      | Inr nin \<Rightarrow>
          Inr (''feedforward'',
               [(''name'', PStr ''out''), (''nin'', nin), (''size'', last specs),
                (''activation'', output_activation net)]))"
  using assms by (auto simp: decoder_request_def getitem_def Let_def split: sum.splits)

lemma setup_decoder_ok:
  assumes "factory_total env" and "map_of (net_kwargs net) ''layers'' = Some (c specs)"
    and "c = PList \<or> c = PTuple" and "specs \<noteq> []" and "net_layers net \<noteq> []"
    and "get_default (net_kwargs net) ''decode_from'' (PInt 1) = PInt n"
  shows "\<exists>net'. setup_decoder env net = Inr net'"
proof -
  from assms(5,6) obtain nin where
    "decoder_nin (get_default (net_kwargs net) ''decode_from'' (PInt 1)) (map l_size (net_layers net)) = Inr nin"
    by (cases "n \<le> 1") (auto simp: decoder_nin_def)
  with decoder_request_eq [OF assms(2,3,4)] obtain kw where
    rq: "decoder_request net = Inr (''feedforward'', kw)" by simp
  from assms(1) obtain l where "build env ''feedforward'' [] kw = Inr l"
    unfolding factory_total_def by blast
  with rq show ?thesis by (simp add: setup_decoder_def)
qed

lemma setup_layers_ok:
  assumes "factory_total env" and "map_of (net_kwargs net) ''layers'' = Some (c specs)"
    and "c = PList \<or> c = PTuple" and "2 \<le> length specs"
    and "list_all spec_accepted specs"
    and "get_default (net_kwargs net) ''decode_from'' (PInt 1) = PInt n"
  shows "\<exists>net'. setup_layers env net = Inr net'"
proof -
  from assms(2,3) have enc: "encoding_layers net = Inr (c (butlast specs))"
    by (auto simp: encoding_layers_def getitem_def)
  from assms(3) have tl: "to_list (c (butlast specs)) = Inr (butlast specs)" by auto
  from assms(2) have hk: "has_key (net_kwargs net) ''layers''" by (simp add: has_key_def)
  from assms(4) have "1 \<le> length (butlast specs)" by simp
  then obtain spec0 rest where bl: "butlast specs = spec0 # rest"
    by (cases "butlast specs") auto
  define rng where "rng = (if truthy (get (net_kwargs net) ''rng'') then get (net_kwargs net) ''rng'' else random_streams env)"
  from assms(1) obtain l0 where
    b0: "build env ''input'' [spec0] [(''rng'', rng), (''name'', PStr ''in'')] = Inr l0"
    and o0: "map_of (l_outputs l0) ''out'' \<noteq> None"
    unfolding factory_total_def by blast
  from o0 have h0: "has_out (net\<lparr>net_layers := net_layers net @ [l0]\<rparr>)"
    by (simp add: has_out_def)
  from assms(5) have "list_all spec_accepted (butlast specs)"
    by (auto simp: list_all_iff dest: in_set_butlastD)
  with bl have "list_all spec_accepted rest" by simp
  from encoder_loop_ok [OF assms(1) h0 this] obtain net1 where
    lp: "encoder_loop env rng rest (net\<lparr>net_layers := net_layers net @ [l0]\<rparr>) = Inr net1"
    and ne: "net_layers net1 \<noteq> []" by blast
  from encoder_loop_length [OF lp] have k1: "net_kwargs net1 = net_kwargs net" by simp
  from assms(4) have "specs \<noteq> []" by auto
  from setup_decoder_ok [OF assms(1) _ assms(3) this ne, of n] assms(2,6) k1
  obtain net' where "setup_decoder env net1 = Inr net'" by auto
  with hk enc tl bl b0 lp show ?thesis
    by (simp add: setup_layers_def Let_def rng_def)
qed

lemma encoder_request_size_dict:
  "encoder_request env net rng (PDict [(''size'', PInt n)]) = encoder_request env net rng (PInt n)"
  by (cases "default_kwargs net rng") (simp_all add: encoder_request_def Let_def)


lemma agree_append:
  "agree a b \<Longrightarrow> agree (a\<lparr>net_layers := net_layers a @ [l]\<rparr>) (b\<lparr>net_layers := net_layers b @ [l]\<rparr>)"
  by (simp add: agree_def)

lemma default_kwargs_agree:
  assumes "agree a b"
  shows "default_kwargs a rng = default_kwargs b rng"
proof -
  from assms have l: "net_layers a = net_layers b"
    and h: "get_default (net_kwargs a) ''hidden_activation'' (PStr ''logistic'')
            = get_default (net_kwargs b) ''hidden_activation'' (PStr ''logistic'')"
    by (simp_all add: agree_def get_default_def)
  show ?thesis unfolding default_kwargs_def l h by (rule refl)
qed

lemma encoder_request_agree:
  assumes "agree a b"
  shows "encoder_request env a rng spec = encoder_request env b rng spec"
proof -
  from assms have l: "net_layers a = net_layers b" by (simp add: agree_def)
  show ?thesis unfolding encoder_request_def default_kwargs_agree [OF assms] l by (rule refl)
qed

lemma encoder_loop_agree:
  "list_all2 size_encoding s1 s2 \<Longrightarrow> agree a b \<Longrightarrow>
     rel_sum (=) agree (encoder_loop env rng s1 a) (encoder_loop env rng s2 b)"
proof (induction s1 s2 arbitrary: a b rule: list_all2_induct)
  case Nil
  then show ?case by simp
next
  case (Cons x xs y ys)
  have IH: "\<And>l. rel_sum (=) agree
      (encoder_loop env rng xs (a\<lparr>net_layers := net_layers a @ [l]\<rparr>))
      (encoder_loop env rng ys (b\<lparr>net_layers := net_layers b @ [l]\<rparr>))"
    using Cons.IH agree_append [OF Cons.prems] by blast
  show ?case
  proof (cases "\<exists>l. x = PLayer l")
    case True
    then obtain l where l: "x = PLayer l" ..
    with Cons.hyps(1) have "y = PLayer l" by (auto simp: size_encoding_def)
    with l IH show ?thesis by simp
  next
    case False
    from Cons.hyps(1) have ny: "\<not> (\<exists>l. y = PLayer l)" using False
      by (auto simp: size_encoding_def)
    have rq: "encoder_request env a rng x = encoder_request env b rng y"
      using Cons.hyps(1) encoder_request_agree [OF Cons.prems]
      by (auto simp: size_encoding_def encoder_request_size_dict)
    have sx: "encoder_loop env rng (x # xs) a =
        (case encoder_request env a rng x of
             Inl e \<Rightarrow> Inl e
           | Inr (form, kw) \<Rightarrow>
               (case build env form [] kw of
                  Inl e \<Rightarrow> Inl e
                | Inr l \<Rightarrow>
                    encoder_loop env rng xs (a\<lparr>net_layers := net_layers a @ [l]\<rparr>)))"
      using False by (cases x) simp_all
    have sy: "encoder_loop env rng (y # ys) b =
        (case encoder_request env b rng y of
             Inl e \<Rightarrow> Inl e
           | Inr (form, kw) \<Rightarrow>
               (case build env form [] kw of
                  Inl e \<Rightarrow> Inl e
                | Inr l \<Rightarrow>
                    encoder_loop env rng ys (b\<lparr>net_layers := net_layers b @ [l]\<rparr>)))"
      using ny by (cases y) simp_all
    show ?thesis unfolding sx sy rq using IH
      by (auto split: sum.splits prod.splits)
  qed
qed

lemma setup_layers_butlast:
  assumes "map_of (net_kwargs net) ''layers'' = Some (c (first # mid @ [lst]))"
    and "c = PList \<or> c = PTuple"
  shows "setup_layers env net =
     (let r = get (net_kwargs net) ''rng'';
          rng = (if truthy r then r else random_streams env)
      in case build env ''input'' [first] [(''rng'', rng), (''name'', PStr ''in'')] of
           Inl e \<Rightarrow> Inl e
         | Inr l0 \<Rightarrow>
             (case encoder_loop env rng mid (net\<lparr>net_layers := net_layers net @ [l0]\<rparr>) of
                Inl e \<Rightarrow> Inl e
              | Inr net1 \<Rightarrow> setup_decoder env net1))"
proof -
  have bl: "butlast (first # mid @ [lst]) = first # mid" by (simp add: butlast_append)
  from assms have enc: "encoding_layers net = Inr (c (first # mid))"
    by (auto simp: encoding_layers_def getitem_def bl simp del: butlast.simps)
  from assms(2) have tl: "to_list (c (first # mid)) = Inr (first # mid)" by auto
  from assms(1) have hk: "has_key (net_kwargs net) ''layers''" by (simp add: has_key_def)
  show ?thesis by (simp add: setup_layers_def hk enc tl Let_def)
qed

lemma setup_decoder_agree:
  assumes "agree a b"
    and "map_of (net_kwargs a) ''layers'' = Some (c (first # mid1 @ [lst]))"
    and "map_of (net_kwargs b) ''layers'' = Some (c (first # mid2 @ [lst]))"
    and "c = PList \<or> c = PTuple"
  shows "rel_sum (=) agree (setup_decoder env a) (setup_decoder env b)"
proof -
  have la: "last (first # mid1 @ [lst]) = lst" and lb: "last (first # mid2 @ [lst]) = lst"
    by simp_all
  from assms(1) have eq: "net_layers a = net_layers b"
    "get_default (net_kwargs a) ''decode_from'' (PInt 1) = get_default (net_kwargs b) ''decode_from'' (PInt 1)"
    "output_activation a = output_activation b"
    by (simp_all add: agree_def get_default_def output_activation_def)
  have "decoder_request a = decoder_request b"
    using decoder_request_eq [OF assms(2) assms(4)] decoder_request_eq [OF assms(3) assms(4)]
    unfolding la lb eq by simp
  then show ?thesis using agree_append [OF assms(1)]
    by (auto simp: setup_decoder_def split: sum.splits prod.splits)
qed

lemma setup_layers_agree:
  assumes "agree a b"
    and "map_of (net_kwargs a) ''layers'' = Some (c (first # mid1 @ [lst]))"
    and "map_of (net_kwargs b) ''layers'' = Some (c (first # mid2 @ [lst]))"
    and "c = PList \<or> c = PTuple"
    and "list_all2 size_encoding mid1 mid2"
  shows "rel_sum (=) agree (setup_layers env a) (setup_layers env b)"
proof -
  define rng where "rng = (if truthy (get (net_kwargs a) ''rng'') then get (net_kwargs a) ''rng'' else random_streams env)"
  from assms(1) have g: "get (net_kwargs b) ''rng'' = get (net_kwargs a) ''rng''"
    by (simp add: agree_def get_def)
  from assms(1) have ll: "net_layers b = net_layers a" by (simp add: agree_def)
  show ?thesis
  proof (cases "build env ''input'' [first] [(''rng'', rng), (''name'', PStr ''in'')]")
    case (Inl e)
    then show ?thesis
      unfolding setup_layers_butlast [OF assms(2,4)] setup_layers_butlast [OF assms(3,4)]
      by (simp add: Let_def g rng_def)
  next
    case (Inr l0)
    let ?a = "a\<lparr>net_layers := net_layers a @ [l0]\<rparr>" and ?b = "b\<lparr>net_layers := net_layers b @ [l0]\<rparr>"
    have lp: "rel_sum (=) agree (encoder_loop env rng mid1 ?a) (encoder_loop env rng mid2 ?b)"
      by (rule encoder_loop_agree [OF assms(5) agree_append [OF assms(1)]])
    have sa: "setup_layers env a = (case encoder_loop env rng mid1 ?a of Inl e \<Rightarrow> Inl e | Inr n1 \<Rightarrow> setup_decoder env n1)"
      unfolding setup_layers_butlast [OF assms(2,4)] using Inr by (simp add: Let_def rng_def)
    have sb: "setup_layers env b = (case encoder_loop env rng mid2 ?b of Inl e \<Rightarrow> Inl e | Inr n1 \<Rightarrow> setup_decoder env n1)"
      unfolding setup_layers_butlast [OF assms(3,4)] using Inr by (simp add: Let_def rng_def g)
    show ?thesis
    proof (cases "encoder_loop env rng mid1 ?a")
      case (Inl e)
      with lp have "encoder_loop env rng mid2 ?b = Inl e" by (cases "encoder_loop env rng mid2 ?b") auto
      with Inl show ?thesis by (simp add: sa sb)
    next
      case a1: (Inr a1)
      with lp obtain b1 where b1: "encoder_loop env rng mid2 ?b = Inr b1" and ag: "agree a1 b1"
        by (cases "encoder_loop env rng mid2 ?b") auto
      from encoder_loop_length [OF a1] assms(2)
      have ka: "map_of (net_kwargs a1) ''layers'' = Some (c (first # mid1 @ [lst]))" by simp
      from encoder_loop_length [OF b1] assms(3)
      have kb: "map_of (net_kwargs b1) ''layers'' = Some (c (first # mid2 @ [lst]))" by simp
      from setup_decoder_agree [OF ag ka kb assms(4)] show ?thesis by (simp add: sa sb a1 b1)
    qed
  qed
qed

lemma init_agree:
  assumes "c = PList \<or> c = PTuple" and "list_all2 size_encoding mid1 mid2"
  shows "rel_sum (=) agree (init env ((''layers'', c (first # mid1 @ [lst])) # opts))
                            (init env ((''layers'', c (first # mid2 @ [lst])) # opts))"
  unfolding init_def Let_def
  by (rule setup_layers_agree [where c = c and first = first and lst = lst and ?mid1.0 = mid1 and ?mid2.0 = mid2])
     (simp_all add: assms agree_def setup_vars_def Let_def get_def)


lemma plain_factory_total: "factory_total plain"
  by (simp add: factory_total_def plain_def plain_build_def Let_def)

text \<open>
  Claim C7, as amended. Let the \<^verbatim>\<open>layers\<close> option be a list or tuple of specifications.
  Whenever the constructor returns a network, the network has as many layers as the option
  has elements, and the option has at least two elements. The constructor does return one
  when the option has at least two elements, the layer factory never raises and gives every
  layer an output \<^verbatim>\<open>out\<close>, no element is a dictionary with a \<^verbatim>\<open>form\<close> that is not a
  string or a layer without an output \<^verbatim>\<open>out\<close>, and \<^verbatim>\<open>decode_from\<close> is absent or an
  integer.
\<close>

theorem layer_count:
  assumes "map_of kw ''layers'' = Some (c specs)" and "c = PList \<or> c = PTuple"
  shows "(\<forall>net. init env kw = Inr net \<longrightarrow>
            length (net_layers net) = length specs \<and> 2 \<le> length specs)
       \<and> (2 \<le> length specs \<and> factory_total env \<and> list_all spec_accepted specs
            \<and> (\<exists>n. get_default kw ''decode_from'' (PInt 1) = PInt n)
          \<longrightarrow> (\<exists>net. init env kw = Inr net))"
proof (intro conjI allI impI)
  fix net assume "init env kw = Inr net"
  from init_length [OF assms this]
  show "length (net_layers net) = length specs" and "2 \<le> length specs" by simp_all
next
  assume h: "2 \<le> length specs \<and> factory_total env \<and> list_all spec_accepted specs
            \<and> (\<exists>n. get_default kw ''decode_from'' (PInt 1) = PInt n)"
  then obtain n where n: "get_default kw ''decode_from'' (PInt 1) = PInt n" by blast
  let ?n0 = "\<lparr>net_graphs = [], net_functions = [], net_layers = [], net_kwargs = kw,
                  net_inputs = [], net_x = None, net_weights = None, net_heap = []\<rparr>"
  let ?n1 = "(snd (setup_vars ?n0))\<lparr>net_inputs := fst (setup_vars ?n0)\<rparr>"
  have k: "net_kwargs ?n1 = kw" by (simp add: setup_vars_def Let_def)
  from h have "\<exists>net'. setup_layers env ?n1 = Inr net'"
    using setup_layers_ok [of env ?n1 c specs n] assms n unfolding k by blast
  then show "\<exists>net. init env kw = Inr net" by (simp add: init_def Let_def)
qed

theorem layer_count_witness:
  "\<exists>net. init plain [(''layers'', PList [PInt 5, PInt 4, PInt 3])] = Inr net
         \<and> length (net_layers net) = 3"
proof -
  let ?kw = "[(''layers'', PList [PInt 5, PInt 4, PInt 3])]"
  have a: "map_of ?kw ''layers'' = Some (PList [PInt 5, PInt 4, PInt 3])" by simp
  have b: "PList = PList \<or> PList = PTuple" by simp
  have c: "2 \<le> length [PInt 5, PInt 4, PInt 3] \<and> factory_total plain
           \<and> list_all spec_accepted [PInt 5, PInt 4, PInt 3]
           \<and> (\<exists>n. get_default ?kw ''decode_from'' (PInt 1) = PInt n)"
    by (simp add: plain_factory_total get_default_def)
  from layer_count [OF a b, of plain] c obtain net where n: "init plain ?kw = Inr net" by blast
  with layer_count [OF a b, of plain] have "length (net_layers net) = 3" by simp
  with n show ?thesis by blast
qed

text \<open>
  The claim as stated counts a one-element sequence as valid. The constructor raises
  \<^verbatim>\<open>IndexError\<close> on it: the encoder specifications are all elements but the last, and
  the input layer is popped from that empty list.
\<close>

theorem layer_count_one_element:
  "init plain [(''layers'', PList [PInt 5])] = Inl IndexError"
  by code_simp

text \<open>
  Claim C8. For a hidden layer, the bare integer \<open>n\<close> and the dictionary
  \<^verbatim>\<open>{'size': n}\<close> give the layer factory the same form and the same keyword arguments;
  so two \<^verbatim>\<open>layers\<close> options that differ only in this encoding of hidden layers give
  the same sequence of layer sizes (or raise the same error).
\<close>

theorem size_encoding_equiv:
  "encoder_request env net rng (PDict [(''size'', PInt n)]) = encoder_request env net rng (PInt n)
   \<and> ((c = PList \<or> c = PTuple) \<and> list_all2 size_encoding mid1 mid2 \<longrightarrow>
        map_sum id (\<lambda>net. map l_size (net_layers net))
          (init env ((''layers'', c (first # mid1 @ [lst])) # opts))
        = map_sum id (\<lambda>net. map l_size (net_layers net))
          (init env ((''layers'', c (first # mid2 @ [lst])) # opts)))"
proof (intro conjI impI)
  show "encoder_request env net rng (PDict [(''size'', PInt n)]) = encoder_request env net rng (PInt n)"
    by (rule encoder_request_size_dict)
next
  assume h: "(c = PList \<or> c = PTuple) \<and> list_all2 size_encoding mid1 mid2"
  let ?a = "init env ((''layers'', c (first # mid1 @ [lst])) # opts)"
  let ?b = "init env ((''layers'', c (first # mid2 @ [lst])) # opts)"
  from h have "rel_sum (=) agree ?a ?b" using init_agree by blast
  then show "map_sum id (\<lambda>net. map l_size (net_layers net)) ?a
           = map_sum id (\<lambda>net. map l_size (net_layers net)) ?b"
    by (cases ?a; cases ?b) (auto simp: agree_def)
qed

theorem size_encoding_equiv_witness:
  "map_sum id (\<lambda>net. map l_size (net_layers net))
     (init plain [(''layers'', PList [PInt 5, PDict [(''size'', PInt 4)], PInt 3])])
   = Inr [5, 4, 3]"
proof -
  let ?net = "\<lparr>net_graphs = [], net_functions = [], net_layers = [], net_kwargs = [],
               net_inputs = [], net_x = None, net_weights = None, net_heap = []\<rparr>"
  have h: "(PList = PList \<or> PList = PTuple)
           \<and> list_all2 size_encoding [PInt 4] [PDict [(''size'', PInt 4)]]"
    by (simp add: size_encoding_def)
  have v: "map_sum id (\<lambda>net. map l_size (net_layers net))
             (init plain [(''layers'', PList [PInt 5, PInt 4, PInt 3])]) = Inr [5, 4, 3]"
    by code_simp
  from size_encoding_equiv [of plain ?net "PRng 0" 4 PList "[PInt 4]"
         "[PDict [(''size'', PInt 4)]]" "PInt 5" "PInt 3" "[]"] h v
  show ?thesis by simp
qed

text \<open>
  Claim C10. Whatever the last element of the \<^verbatim>\<open>layers\<close> option is (an integer, a
  tuple, a dictionary, a layer instance), \<^verbatim>\<open>setup_decoder\<close> passes that element itself
  as the keyword argument \<^verbatim>\<open>size\<close> of the decoder; the only errors of its own come from
  the computation of \<^verbatim>\<open>nin\<close>, none from the shape of that element.
\<close>

theorem decoder_size_verbatim:
  assumes "map_of (net_kwargs net) ''layers'' = Some (c specs)" and "c = PList \<or> c = PTuple"
    and "specs \<noteq> []"
  shows "setup_decoder env net =
     (case decoder_nin (get_default (net_kwargs net) ''decode_from'' (PInt 1))
             (map l_size (net_layers net)) of
        Inl e \<Rightarrow> Inl e
      | Inr nin \<Rightarrow>
          (case build env ''feedforward'' []
                  [(''name'', PStr ''out''), (''nin'', nin), (''size'', last specs),
                   (''activation'', output_activation net)] of
             Inl e \<Rightarrow> Inl e
           | Inr l \<Rightarrow> Inr (net\<lparr>net_layers := net_layers net @ [l]\<rparr>)))"
  unfolding setup_decoder_def decoder_request_eq [OF assms]
  by (simp split: sum.splits)

theorem decoder_size_verbatim_witness:
  "setup_decoder plain
     \<lparr>net_graphs = [], net_functions = [],
      net_layers = [\<lparr>l_class = ''input'', l_name = ''in'', l_size = 5, l_params = [],
                     l_outputs = [(''out'', Apply ''in.out'' [])]\<rparr>],
      net_kwargs = [(''layers'', PList [PInt 5, PDict [(''size'', PInt 3)]])],
      net_inputs = [Matrix ''x''], net_x = Some (Matrix ''x''),
      net_weights = Some (Matrix ''weights''), net_heap = []\<rparr>
   = (case plain_build ''feedforward'' []
             [(''name'', PStr ''out''), (''nin'', PInt 5),
              (''size'', PDict [(''size'', PInt 3)]), (''activation'', PStr ''linear'')] of
        Inl e \<Rightarrow> Inl e
      | Inr l \<Rightarrow>
          Inr \<lparr>net_graphs = [], net_functions = [],
               net_layers = [\<lparr>l_class = ''input'', l_name = ''in'', l_size = 5, l_params = [],
                              l_outputs = [(''out'', Apply ''in.out'' [])]\<rparr>, l],
               net_kwargs = [(''layers'', PList [PInt 5, PDict [(''size'', PInt 3)]])],
               net_inputs = [Matrix ''x''], net_x = Some (Matrix ''x''),
               net_weights = Some (Matrix ''weights''), net_heap = []\<rparr>)"
proof -
  let ?net = "\<lparr>net_graphs = [], net_functions = [],
      net_layers = [\<lparr>l_class = ''input'', l_name = ''in'', l_size = 5, l_params = [],
                     l_outputs = [(''out'', Apply ''in.out'' [])]\<rparr>],
      net_kwargs = [(''layers'', PList [PInt 5, PDict [(''size'', PInt 3)]])],
      net_inputs = [Matrix ''x''], net_x = Some (Matrix ''x''),
      net_weights = Some (Matrix ''weights''), net_heap = []\<rparr>"
  have a: "map_of (net_kwargs ?net) ''layers'' = Some (PList [PInt 5, PDict [(''size'', PInt 3)]])"
    by simp
  have b: "PList = PList \<or> PList = PTuple" by simp
  have c: "[PInt 5, PDict [(''size'', PInt 3)]] \<noteq> []" by simp
  show ?thesis
    unfolding decoder_size_verbatim [OF a b c, of plain]
    by (simp add: decoder_nin_def get_default_def output_activation_def plain_def
             split: sum.splits)
qed


subsection \<open>The network error\<close>

lemma concat_map2:
  "map length m = map length n \<Longrightarrow> concat (map2 (map2 f) m n) = map2 f (concat m) (concat n)"
proof (induction m arbitrary: n)
  case Nil
  then show ?case by simp
next
  case (Cons r m)
  then obtain s n' where n: "n = s # n'" by (cases n) auto
  with Cons.prems have "length r = length s" "map length m = map length n'" by simp_all
  with Cons.IH [of n'] show ?case by (simp add: n)
qed

lemma length_concat_shape:
  "map length m = map length n \<Longrightarrow> length (concat m) = length (concat n)"
  by (simp add: length_concat)

lemma eval_Sub: "eval val a = Inr u \<Longrightarrow> eval val b = Inr v \<Longrightarrow> eval val (Sub a b) = elementwise (-) u v"
  by simp

lemma eval_Mul: "eval val a = Inr u \<Longrightarrow> eval val b = Inr v \<Longrightarrow> eval val (Mul a b) = elementwise (*) u v"
  by simp

lemma eval_Sum: "eval val a = Inr u \<Longrightarrow> eval val (Sum a) = Inr (Scalar (sum_list (elements u)))"
  by simp

lemma eval_Mean:
  "eval val a = Inr u \<Longrightarrow> elements u \<noteq> [] \<Longrightarrow>
     eval val (Mean a) = Inr (Scalar (sum_list (elements u) / real (length (elements u))))"
  by (simp add: mean_list_def)

lemma eval_Div_scalars:
  "eval val a = Inr (Scalar p) \<Longrightarrow> eval val b = Inr (Scalar q) \<Longrightarrow> q \<noteq> 0 \<Longrightarrow>
     eval val (Div a b) = Inr (Scalar (p / q))"
  by simp

lemma map_length_map2:
  "map length m = map length n \<Longrightarrow> map length (map2 (map2 f) m n) = map length n"
proof (induction m arbitrary: n)
  case Nil
  then show ?case by simp
next
  case (Cons r m)
  then obtain s n' where n: "n = s # n'" by (cases n) auto
  with Cons.prems have "length r = length s" "map length m = map length n'" by simp_all
  with Cons.IH [of n'] show ?case by (simp add: n)
qed

lemma map2_sq_diff:
  "map2 (*) (map2 (-) ys xs) (map2 (-) ys xs) = map (\<lambda>(a, b). (b - a)\<^sup>2) (zip xs (ys::real list))"
  by (induction xs ys rule: list_induct2') (simp_all add: power2_eq_square)

lemma map2_weighted_sq_diff:
  "map2 (*) (map2 (*) ws (map2 (-) ys xs)) (map2 (-) ys xs)
     = map (\<lambda>(c, a, b). c * (b - a)\<^sup>2) (zip ws (zip xs (ys::real list)))"
proof (induction ws arbitrary: xs ys)
  case Nil
  then show ?case by simp
next
  case (Cons c ws)
  show ?case
  proof (cases xs)
    case Nil
    then show ?thesis by simp
  next
    case xs: (Cons a xs')
    show ?thesis
    proof (cases ys)
      case Nil
      then show ?thesis by simp
    next
      case (Cons b ys')
      with xs Cons.IH [of ys' xs'] show ?thesis by (simp add: power2_eq_square)
    qed
  qed
qed

lemma eval_error_unweighted:
  assumes "net_x net = Some xe" and "eval val xe = Inr (Mat x)"
    and "eval val output = Inr (Mat y)" and "map length y = map length x"
    and "\<not> is_weighted net" and "concat x \<noteq> []"
  shows "\<exists>e. error net output = Inr e \<and> eval val e = Inr (Scalar (spec_mean_sq x y))"
proof -
  let ?d = "map2 (map2 (-)) y x"
  let ?err = "Sub output xe"
  have e: "error net output = Inr (Mean (Mul ?err ?err))"
    using assms(1,5) by (simp add: error_def Let_def)
  have d: "eval val ?err = Inr (Mat ?d)"
    using eval_Sub [OF assms(3) assms(2)] assms(4) by simp
  have m: "eval val (Mul ?err ?err) = Inr (Mat (map2 (map2 (*)) ?d ?d))"
    using eval_Mul [OF d d] by simp
  have cd: "concat ?d = map2 (-) (concat y) (concat x)"
    by (rule concat_map2 [OF assms(4)])
  have c: "concat (map2 (map2 (*)) ?d ?d) = map (\<lambda>(a, b). (b - a)\<^sup>2) (zip (concat x) (concat y))"
    by (simp only: concat_map2 [OF refl] cd map2_sq_diff)
  have l: "length (concat y) = length (concat x)"
    by (rule length_concat_shape [OF assms(4)])
  have "length (elements (Mat (map2 (map2 (*)) ?d ?d))) = length (concat x)"
    by (simp only: elements.simps c length_map length_zip l min.idem)
  with assms(6) have ne: "elements (Mat (map2 (map2 (*)) ?d ?d)) \<noteq> []"
    by (metis length_0_conv)
  have "eval val (Mean (Mul ?err ?err)) = Inr (Scalar (spec_mean_sq x y))"
    unfolding eval_Mean [OF m ne] using l
    by (simp only: elements.simps c spec_mean_sq_def) simp
  with e show ?thesis by blast
qed

lemma eval_error_weighted:
  assumes "net_x net = Some xe" and "eval val xe = Inr (Mat x)"
    and "eval val output = Inr (Mat y)" and "map length y = map length x"
    and "is_weighted net" and "net_weights net = Some we" and "eval val we = Inr (Mat w)"
    and "map length w = map length x" and "sum_list (concat w) \<noteq> 0"
  shows "\<exists>e. error net output = Inr e \<and> eval val e = Inr (Scalar (spec_weighted w x y))"
proof -
  let ?d = "map2 (map2 (-)) y x"
  let ?wd = "map2 (map2 (*)) w ?d"
  let ?err = "Sub output xe"
  have e: "error net output = Inr (Div (Sum (Mul (Mul we ?err) ?err)) (Sum we))"
    using assms(1,5,6) by (simp add: error_def Let_def)
  have d: "eval val ?err = Inr (Mat ?d)"
    using eval_Sub [OF assms(3) assms(2)] assms(4) by simp
  have ld: "map length ?d = map length x" by (rule map_length_map2 [OF assms(4)])
  have wld: "map length w = map length ?d" using assms(8) ld by simp
  have wd: "eval val (Mul we ?err) = Inr (Mat ?wd)"
    using eval_Mul [OF assms(7) d] wld by simp
  have lwd: "map length ?wd = map length ?d" by (rule map_length_map2 [OF wld])
  have wdd: "eval val (Mul (Mul we ?err) ?err) = Inr (Mat (map2 (map2 (*)) ?wd ?d))"
    using eval_Mul [OF wd d] lwd by simp
  have cd: "concat ?d = map2 (-) (concat y) (concat x)"
    by (rule concat_map2 [OF assms(4)])
  have c: "concat (map2 (map2 (*)) ?wd ?d)
           = map (\<lambda>(c, a, b). c * (b - a)\<^sup>2) (zip (concat w) (zip (concat x) (concat y)))"
    by (simp only: concat_map2 [OF lwd] concat_map2 [OF wld] cd map2_weighted_sq_diff)
  have num: "eval val (Sum (Mul (Mul we ?err) ?err))
             = Inr (Scalar (\<Sum>(c, a, b)\<leftarrow>zip (concat w) (zip (concat x) (concat y)). c * (b - a)\<^sup>2))"
    unfolding eval_Sum [OF wdd] by (simp only: elements.simps c)
  have den: "eval val (Sum we) = Inr (Scalar (sum_list (concat w)))"
    unfolding eval_Sum [OF assms(7)] by simp
  have "eval val (Div (Sum (Mul (Mul we ?err) ?err)) (Sum we)) = Inr (Scalar (spec_weighted w x y))"
    unfolding eval_Div_scalars [OF num den assms(9)] spec_weighted_def by (rule refl)
  with e show ?thesis by blast
qed

lemma example_unweighted:
  "(case error (example_net False) (Apply ''out'' []) of
      Inl e \<Rightarrow> None | Inr e \<Rightarrow> Some (eval example_val e)) = Some (Inr (Scalar (1 / 2)))"
  by (simp add: error_def example_net_def is_weighted_def get_def example_val_def mean_list_def Let_def)

lemma example_weighted:
  "(case error (example_net True) (Apply ''out'' []) of
      Inl e \<Rightarrow> None | Inr e \<Rightarrow> Some (eval example_val e)) = Some (Inr (Scalar (1 / 2)))"
  by (simp add: error_def example_net_def is_weighted_def get_def example_val_def mean_list_def Let_def)

text \<open>
  Claim C3, as amended. For an input \<open>x\<close> and an output \<open>y\<close> of one shape, the error
  expression evaluates to \<^verbatim>\<open>mean((y-x)**2)\<close> without weights (when there is at least one
  element) and to \<^verbatim>\<open>sum(w*(y-x)**2) / sum(w)\<close> with weights \<open>w\<close> of the same shape (when
  their sum is not zero). On the literal example the unweighted error is \<open>1/2\<close>, and the
  weighted error is \<open>1/2\<close> as well: the weighted squared errors sum to \<open>1\<close> and the
  weights to \<open>2\<close>.
\<close>

theorem error_formula:
  "(net_x net = Some xe \<and> eval val xe = Inr (Mat x) \<and> eval val output = Inr (Mat y)
      \<and> map length y = map length x \<and> \<not> is_weighted net \<and> concat x \<noteq> []
    \<longrightarrow> (\<exists>e. error net output = Inr e \<and> eval val e = Inr (Scalar (spec_mean_sq x y))))
   \<and> (net_x net = Some xe \<and> eval val xe = Inr (Mat x) \<and> eval val output = Inr (Mat y)
      \<and> map length y = map length x \<and> is_weighted net \<and> net_weights net = Some we
      \<and> eval val we = Inr (Mat w) \<and> map length w = map length x \<and> sum_list (concat w) \<noteq> 0
    \<longrightarrow> (\<exists>e. error net output = Inr e \<and> eval val e = Inr (Scalar (spec_weighted w x y))))
   \<and> (case error (example_net False) (Apply ''out'' []) of
        Inl e \<Rightarrow> None | Inr e \<Rightarrow> Some (eval example_val e)) = Some (Inr (Scalar (1 / 2)))
   \<and> (case error (example_net True) (Apply ''out'' []) of
        Inl e \<Rightarrow> None | Inr e \<Rightarrow> Some (eval example_val e)) = Some (Inr (Scalar (1 / 2)))"
  using eval_error_unweighted [of net xe val x "output" y]
    eval_error_weighted [of net xe val x "output" y we w]
    example_unweighted example_weighted
  by blast

theorem error_formula_witness:
  "(\<exists>e. error (example_net False) (Apply ''out'' []) = Inr e
        \<and> eval example_val e = Inr (Scalar (1 / 2)))
   \<and> (\<exists>e. error (example_net True) (Apply ''out'' []) = Inr e
        \<and> eval example_val e = Inr (Scalar (1 / 2)))"
proof -
  let ?x = "[[1, 0], [0, 1]] :: real list list"
  let ?y = "[[0, 0], [0, 0]] :: real list list"
  let ?w = "[[1, 1], [0, 0]] :: real list list"
  have u: "net_x (example_net False) = Some (Matrix ''x'')
      \<and> eval example_val (Matrix ''x'') = Inr (Mat ?x)
      \<and> eval example_val (Apply ''out'' []) = Inr (Mat ?y)
      \<and> map length ?y = map length ?x \<and> \<not> is_weighted (example_net False) \<and> concat ?x \<noteq> []"
    by (simp add: example_net_def example_val_def is_weighted_def get_def)
  have v: "net_x (example_net True) = Some (Matrix ''x'')
      \<and> eval example_val (Matrix ''x'') = Inr (Mat ?x)
      \<and> eval example_val (Apply ''out'' []) = Inr (Mat ?y)
      \<and> map length ?y = map length ?x \<and> is_weighted (example_net True)
      \<and> net_weights (example_net True) = Some (Matrix ''weights'')
      \<and> eval example_val (Matrix ''weights'') = Inr (Mat ?w)
      \<and> map length ?w = map length ?x \<and> sum_list (concat ?w) \<noteq> 0"
    by (simp add: example_net_def example_val_def is_weighted_def get_def)
  have su: "spec_mean_sq ?x ?y = 1 / 2" by (simp add: spec_mean_sq_def)
  have sw: "spec_weighted ?w ?x ?y = 1 / 2" by (simp add: spec_weighted_def)
  from error_formula [of "example_net False" "Matrix ''x''" example_val ?x "Apply ''out'' []" ?y]
    u su
  have a: "\<exists>e. error (example_net False) (Apply ''out'' []) = Inr e
        \<and> eval example_val e = Inr (Scalar (1 / 2))" by simp
  from error_formula [of "example_net True" "Matrix ''x''" example_val ?x "Apply ''out'' []" ?y
         "Matrix ''weights''" ?w] v sw
  have b: "\<exists>e. error (example_net True) (Apply ''out'' []) = Inr e
        \<and> eval example_val e = Inr (Scalar (1 / 2))" by simp
  from a b show ?thesis by blast
qed

text \<open>
  The claim as stated gives \<open>1.0\<close> for the weighted error of the literal example.
\<close>

theorem weighted_example_is_not_one:
  "(case error (example_net True) (Apply ''out'' []) of
      Inl e \<Rightarrow> None | Inr e \<Rightarrow> Some (eval example_val e)) \<noteq> Some (Inr (Scalar 1))"
  by (simp add: error_def example_net_def is_weighted_def get_def example_val_def
        mean_list_def Let_def)


subsection \<open>The graph cache\<close>

lemma map_of_setitem_same: "map_of (setitem d k v) k = Some v"
  by (induction d) auto

lemma map_of_setitem_other: "k' \<noteq> k \<Longrightarrow> map_of (setitem d k v) k' = map_of d k'"
  by (induction d) auto

lemma hash_layers: "net_layers a = net_layers b \<Longrightarrow> hash env a kw = hash env b kw"
  by (simp add: hash_def hash_input_def)

lemma build_graph_frame:
  assumes "build_graph env kw net = Inr (t, net1)"
  shows "net_layers net1 = net_layers net \<and> net_kwargs net1 = net_kwargs net
         \<and> net_x net1 = net_x net \<and> net_weights net1 = net_weights net
         \<and> net_functions net1 = net_functions net
         \<and> map_of (net_graphs net1) (hash env net kw) = Some t"
  using assms
  by (auto simp: build_graph_def Let_def map_of_setitem_same split: option.splits sum.splits prod.splits)

lemma build_graph_again:
  assumes "build_graph env kw net = Inr (t, net1)"
  shows "build_graph env kw net1 = Inr (t, net1)"
proof -
  from build_graph_frame [OF assms] have l: "net_layers net1 = net_layers net"
    and g: "map_of (net_graphs net1) (hash env net kw) = Some t" by simp_all
  from hash_layers [OF l] g show ?thesis by (simp add: build_graph_def Let_def)
qed

lemma layer_args_total:
  assumes "net_x net = Some x" and "get_default (net_kwargs net) ''decode_from'' (PInt 1) = PInt d"
    and "length outputs = i"
  shows "\<exists>r. layer_args net kw i outputs = Inr r"
  using assms by (auto simp: layer_args_def)

lemma graph_loop_total:
  assumes "net_x net = Some x" and "get_default (net_kwargs net) ''decode_from'' (PInt 1) = PInt d"
  shows "length (fst g) = i \<Longrightarrow> \<exists>g'. graph_loop env net kw i ls g = Inr g'"
proof (induction ls arbitrary: i g)
  case Nil
  show ?case by (metis graph_loop.simps(1))
next
  case (Cons l ls)
  from layer_args_total [OF assms Cons.prems] obtain inputs noise dropout where
    a: "layer_args net kw i (fst g) = Inr (inputs, noise, dropout)" by (metis prod_cases3)
  obtain out mon upd where o: "layer_output env l inputs noise dropout = (out, mon, upd)"
    by (metis prod_cases3)
  have "length (fst (fst g @ [out], fst (snd g) @ mon, snd (snd g) @ upd)) = Suc i"
    using Cons.prems by simp
  from Cons.IH [OF this] show ?case by (simp add: a o)
qed

lemma build_graph_total:
  assumes "net_x net = Some x" and "get_default (net_kwargs net) ''decode_from'' (PInt 1) = PInt d"
  shows "\<exists>t net1. build_graph env kw net = Inr (t, net1)"
proof (cases "map_of (net_graphs net) (hash env net kw)")
  case None
  from graph_loop_total [OF assms, of "([], [], [])" 0 env kw "net_layers net"]
  obtain g' where "graph_loop env net kw 0 (net_layers net) ([], [], []) = Inr g'"
    by auto
  with None show ?thesis by (cases g') (simp add: build_graph_def Let_def)
next
  case (Some t)
  then show ?thesis by (simp add: build_graph_def Let_def)
qed

lemma init_four_layer_net:
  "init plain [(''layers'', PList [PInt 5, PInt 4, PInt 4, PInt 3]), (''decode_from'', PInt 2)]
   = Inr four_layer_net"
  by code_simp

lemma init_two_layer_net: "init plain [(''layers'', PList [PInt 5, PInt 3])] = Inr two_layer_net"
  by code_simp

lemma graph_loop_last:
  "graph_loop env net kw i ls g = Inr (outs, mons, upds) \<Longrightarrow> ls \<noteq> [] \<Longrightarrow>
   length (fst g) = i \<Longrightarrow>
     length outs = i + length ls
     \<and> (\<exists>inputs noise dropout.
           layer_args net kw (i + length ls - 1) (butlast outs) = Inr (inputs, noise, dropout)
           \<and> last outs = fst (layer_output env (last ls) inputs noise dropout))"
proof (induction ls arbitrary: i g)
  case Nil
  then show ?case by simp
next
  case (Cons l ls)
  from Cons.prems(1) obtain inputs noise dropout where
    a: "layer_args net kw i (fst g) = Inr (inputs, noise, dropout)"
    by (auto split: sum.splits)
  obtain out mon upd where o: "layer_output env l inputs noise dropout = (out, mon, upd)"
    by (metis prod_cases3)
  let ?g = "(fst g @ [out], fst (snd g) @ mon, snd (snd g) @ upd)"
  from Cons.prems(1) a o have r: "graph_loop env net kw (Suc i) ls ?g = Inr (outs, mons, upds)"
    by simp
  show ?case
  proof (cases "ls = []")
    case True
    with r have "outs = fst g @ [out]" by simp
    with True a o Cons.prems(3) show ?thesis by simp
  next
    case False
    have "length (fst ?g) = Suc i" using Cons.prems(3) by simp
    from Cons.IH [OF r False this] False show ?thesis by simp
  qed
qed

lemma unpack_fresh:
  "unpack_graph (h @ [ExprList outs, MonList mons, UpdList upds,
                      Tuple3 (length h) (length h + 1) (length h + 2)]) (length h + 3)
   = Inr (outs, mons, upds)"
  by (simp add: unpack_graph_def deref_def nth_append)

lemma build_graph_miss:
  assumes "map_of (net_graphs net) (hash env net kw) = None"
    and "graph_loop env net kw 0 (net_layers net) ([], [], []) = Inr (outs, mons, upds)"
  shows "build_graph env kw net =
     Inr (length (net_heap net) + 3,
          net\<lparr>net_graphs := setitem (net_graphs net) (hash env net kw) (length (net_heap net) + 3),
              net_heap := net_heap net @ [ExprList outs, MonList mons, UpdList upds,
                 Tuple3 (length (net_heap net)) (length (net_heap net) + 1) (length (net_heap net) + 2)]\<rparr>)"
  using assms by (simp add: build_graph_def Let_def)

lemma build_graph_miss_unpack:
  assumes "map_of (net_graphs net) (hash env net kw) = None"
    and "build_graph env kw net = Inr (t, net1)"
  shows "\<exists>outs mons upds.
           graph_loop env net kw 0 (net_layers net) ([], [], []) = Inr (outs, mons, upds)
           \<and> unpack_graph (net_heap net1) t = Inr (outs, mons, upds)"
proof -
  from assms obtain g where g: "graph_loop env net kw 0 (net_layers net) ([], [], []) = Inr g"
    by (auto simp: build_graph_def Let_def split: sum.splits)
  obtain outs mons upds where gg: "g = (outs, mons, upds)" by (metis prod_cases3)
  from build_graph_miss [OF assms(1) g [unfolded gg]] assms(2)
  have "t = length (net_heap net) + 3"
    and "net_heap net1 = net_heap net @ [ExprList outs, MonList mons, UpdList upds,
                 Tuple3 (length (net_heap net)) (length (net_heap net) + 1) (length (net_heap net) + 2)]"
    by auto
  with unpack_fresh [of "net_heap net" outs mons upds] g gg show ?thesis by simp
qed

text \<open>
  Claim C5. Whenever \<^verbatim>\<open>build_graph\<close> returns, what it returns is the tuple that the
  graph cache holds for the key; on a miss that tuple holds the outputs, monitors and
  updates the loop over the layers has just built. A second call with the same options, the
  layers unchanged, returns the same tuple object (the same address) and leaves the
  network, its store included, as the first call left it: nothing is built again. The first
  call does return when the input variable is set and \<^verbatim>\<open>decode_from\<close> is an integer.
\<close>

theorem build_graph_memoized:
  "(\<forall>t net1. build_graph env kw net = Inr (t, net1) \<longrightarrow>
       net_layers net1 = net_layers net
     \<and> map_of (net_graphs net1) (hash env net1 kw) = Some t
     \<and> build_graph env kw net1 = Inr (t, net1)
     \<and> (map_of (net_graphs net) (hash env net kw) = None \<longrightarrow>
          (\<exists>outs mons upds.
              graph_loop env net kw 0 (net_layers net) ([], [], []) = Inr (outs, mons, upds)
              \<and> unpack_graph (net_heap net1) t = Inr (outs, mons, upds)))
     \<and> (\<forall>t0. map_of (net_graphs net) (hash env net kw) = Some t0 \<longrightarrow> t = t0 \<and> net1 = net))
   \<and> (net_x net = Some x \<and> get_default (net_kwargs net) ''decode_from'' (PInt 1) = PInt d
        \<longrightarrow> (\<exists>t net1. build_graph env kw net = Inr (t, net1)))"
proof (intro conjI allI impI)
  fix t net1 assume b: "build_graph env kw net = Inr (t, net1)"
  from build_graph_frame [OF b] show l: "net_layers net1 = net_layers net" by simp
  from build_graph_frame [OF b] hash_layers [OF l]
  show "map_of (net_graphs net1) (hash env net1 kw) = Some t" by simp
  from build_graph_again [OF b] show "build_graph env kw net1 = Inr (t, net1)" .
next
  fix t net1 assume b: "build_graph env kw net = Inr (t, net1)"
    and m: "map_of (net_graphs net) (hash env net kw) = None"
  from build_graph_miss_unpack [OF m b]
  show "\<exists>outs mons upds.
          graph_loop env net kw 0 (net_layers net) ([], [], []) = Inr (outs, mons, upds)
          \<and> unpack_graph (net_heap net1) t = Inr (outs, mons, upds)" .
next
  fix t net1 t0 assume b: "build_graph env kw net = Inr (t, net1)"
    and h: "map_of (net_graphs net) (hash env net kw) = Some t0"
  then show "t = t0" and "net1 = net" by (simp_all add: build_graph_def Let_def)
next
  assume "net_x net = Some x \<and> get_default (net_kwargs net) ''decode_from'' (PInt 1) = PInt d"
  then show "\<exists>t net1. build_graph env kw net = Inr (t, net1)"
    using build_graph_total by blast
qed

theorem build_graph_memoized_witness:
  "\<exists>t net1 outs mons upds.
      build_graph plain [] four_layer_net = Inr (t, net1)
      \<and> map_of (net_graphs net1) (hash plain net1 []) = Some t
      \<and> unpack_graph (net_heap net1) t = Inr (outs, mons, upds)
      \<and> graph_loop plain four_layer_net [] 0 (net_layers four_layer_net) ([], [], [])
          = Inr (outs, mons, upds)
      \<and> build_graph plain [] net1 = Inr (t, net1)"
proof -
  have h: "net_x four_layer_net = Some (Matrix ''x'')
           \<and> get_default (net_kwargs four_layer_net) ''decode_from'' (PInt 1) = PInt 2"
    by (simp add: four_layer_net_def get_default_def)
  have m: "map_of (net_graphs four_layer_net) (hash plain four_layer_net []) = None"
    by (simp add: four_layer_net_def)
  note memo = build_graph_memoized [of plain "[]" four_layer_net "Matrix ''x''" 2]
  from memo h obtain t net1 where b: "build_graph plain [] four_layer_net = Inr (t, net1)"
    by blast
  from memo b m show ?thesis by blast
qed

subsection \<open>The inputs of the decoder\<close>

text \<open>
  Claim C4, as amended. When \<^verbatim>\<open>build_graph\<close> builds a graph for a network of at least
  two layers, the last layer receives as its inputs the slice
  \<^verbatim>\<open>outputs[-decode_from:]\<close> of the outputs of the layers before it: for a positive
  \<^verbatim>\<open>decode_from\<close> the most recent \<^verbatim>\<open>decode_from\<close> of them (all of them when there are
  fewer). With \<^verbatim>\<open>decode_from=2\<close> and four layers these are the outputs of the layers at
  positions 1 and 2; position 3 is the decoder itself.
\<close>

theorem decoder_inputs:
  assumes "build_graph env kw net = Inr (t, net1)"
    and "map_of (net_graphs net) (hash env net kw) = None"
    and "2 \<le> length (net_layers net)"
    and "get_default (net_kwargs net) ''decode_from'' (PInt 1) = PInt d"
  shows "\<exists>outs mons upds.
           unpack_graph (net_heap net1) t = Inr (outs, mons, upds)
           \<and> length outs = length (net_layers net)
           \<and> last outs =
               fst (layer_output env (last (net_layers net))
                      (Several (slice_from (- d) (butlast outs)))
                      (get_default kw ''hidden_noise'' (PInt 0))
                      (get_default kw ''hidden_dropouts'' (PInt 0)))
           \<and> (1 \<le> d \<longrightarrow>
                 slice_from (- d) (butlast outs) = drop (length outs - 1 - nat d) (butlast outs))
           \<and> (length (net_layers net) = 4 \<and> d = 2 \<longrightarrow>
                 slice_from (- d) (butlast outs) = [outs ! 1, outs ! 2])"
proof -
  from build_graph_miss_unpack [OF assms(2,1)] obtain outs mons upds where
    g: "graph_loop env net kw 0 (net_layers net) ([], [], []) = Inr (outs, mons, upds)"
    and u: "unpack_graph (net_heap net1) t = Inr (outs, mons, upds)" by blast
  let ?n = "length (net_layers net)"
  from assms(3) have ne: "net_layers net \<noteq> []" by auto
  from graph_loop_last [OF g ne] obtain inputs noise dropout where
    len: "length outs = ?n"
    and a: "layer_args net kw (?n - 1) (butlast outs) = Inr (inputs, noise, dropout)"
    and l: "last outs = fst (layer_output env (last (net_layers net)) inputs noise dropout)"
    by auto
  from assms(3) have "?n - 1 \<noteq> 0" and "int (?n - 1) = int ?n - 1" by auto
  with a assms(4) have i: "inputs = Several (slice_from (- d) (butlast outs))"
    and n: "noise = get_default kw ''hidden_noise'' (PInt 0)"
    and dr: "dropout = get_default kw ''hidden_dropouts'' (PInt 0)"
    by (auto simp: layer_args_def)
  have s1: "1 \<le> d \<longrightarrow> slice_from (- d) (butlast outs) = drop (length outs - 1 - nat d) (butlast outs)"
    by (auto simp: slice_from_def max_def nat_diff_distrib' intro!: arg_cong2 [where f = drop])
  have s2: "?n = 4 \<and> d = 2 \<longrightarrow> slice_from (- d) (butlast outs) = [outs ! 1, outs ! 2]"
  proof
    assume h: "?n = 4 \<and> d = 2"
    with len obtain o0 o1 o2 o3 where "outs = [o0, o1, o2, o3]"
      by (auto simp: length_Suc_conv numeral_eq_Suc)
    with h show "slice_from (- d) (butlast outs) = [outs ! 1, outs ! 2]"
      by (simp add: slice_from_def)
  qed
  from u len l i n dr s1 s2 show ?thesis by blast
qed

theorem decoder_inputs_witness:
  "\<exists>t net1 outs mons upds.
      build_graph plain [] four_layer_net = Inr (t, net1)
      \<and> unpack_graph (net_heap net1) t = Inr (outs, mons, upds)
      \<and> length outs = 4
      \<and> last outs = Apply ''out'' [outs ! 1, outs ! 2]"
proof -
  have x: "net_x four_layer_net = Some (Matrix ''x'')"
    and d: "get_default (net_kwargs four_layer_net) ''decode_from'' (PInt 1) = PInt 2"
    and m: "map_of (net_graphs four_layer_net) (hash plain four_layer_net []) = None"
    and n: "2 \<le> length (net_layers four_layer_net)"
    and n4: "length (net_layers four_layer_net) = 4"
    and l: "last (net_layers four_layer_net) = plain_layer ''feedforward'' ''out'' 3"
    by (simp_all add: four_layer_net_def get_default_def)
  from build_graph_total [OF x d] obtain t net1 where
    b: "build_graph plain [] four_layer_net = Inr (t, net1)" by blast
  from decoder_inputs [OF b m n d] n4 l obtain outs mons upds where
    "unpack_graph (net_heap net1) t = Inr (outs, mons, upds)" and "length outs = 4"
    and "last outs = fst (layer_output plain (plain_layer ''feedforward'' ''out'' 3)
                      (Several [outs ! 1, outs ! 2])
                      (get_default [] ''hidden_noise'' (PInt 0))
                      (get_default [] ''hidden_dropouts'' (PInt 0)))"
    by auto
  with b show ?thesis
    by (auto simp: plain_def plain_output_def plain_layer_def Let_def)
qed

text \<open>
  The claim as stated names positions 2 and 3. On the four-layer network the decoder's
  output is built from the outputs at positions 1 and 2.
\<close>

theorem decoder_inputs_positions_1_2:
  "(case build_graph plain [] four_layer_net of
      Inl e \<Rightarrow> False
    | Inr (t, net1) \<Rightarrow>
        (case unpack_graph (net_heap net1) t of
           Inl e \<Rightarrow> False
         | Inr (outs, mons, upds) \<Rightarrow>
             length outs = 4
             \<and> last outs = Apply ''out'' [outs ! 1, outs ! 2]
             \<and> last outs \<noteq> Apply ''out'' [outs ! 2, outs ! 3]))"
  by code_simp

subsection \<open>\<^verbatim>\<open>loss\<close> and the cached monitors\<close>

text \<open>
  Claim C2 says that the value of a graph-cache entry never changes: after \<^verbatim>\<open>loss\<close>,
  \<^verbatim>\<open>build_graph\<close> with the same key should still return the per-layer monitors only.
  The code does not keep this. \<^verbatim>\<open>loss\<close> inserts \<^verbatim>\<open>('err', err)\<close> into the very list
  that the cached tuple holds: on the two-layer network, \<^verbatim>\<open>build_graph\<close> returns the same
  tuple before and after \<^verbatim>\<open>loss\<close>, with the monitors \<open>in.mean, out.mean\<close> before,
  \<open>err, in.mean, out.mean\<close> after one call of \<^verbatim>\<open>loss\<close>, and \<open>err\<close> twice after two.
\<close>

theorem loss_changes_cached_monitors:
  "(case build_graph plain [] two_layer_net of
      Inl e \<Rightarrow> None
    | Inr (t, n1) \<Rightarrow>
        (case loss plain [] n1 of
           (r1, n2) \<Rightarrow>
             (case build_graph plain [] n2 of
                Inl e \<Rightarrow> None
              | Inr (t2, n3) \<Rightarrow>
                  (case loss plain [] n3 of
                     (r2, n4) \<Rightarrow>
                       (case build_graph plain [] n4 of
                          Inl e \<Rightarrow> None
                        | Inr (t3, n5) \<Rightarrow>
                            Some (t2 = t \<and> t3 = t,
                                  map fst (cached_monitors n1 t),
                                  map fst (cached_monitors n3 t2),
                                  map fst (cached_monitors n5 t3)))))))
   = Some (True, [''in.mean'', ''out.mean''], [''err'', ''in.mean'', ''out.mean''],
           [''err'', ''err'', ''in.mean'', ''out.mean''])"
  by code_simp

subsection \<open>Distinct options, distinct entries\<close>

lemma join_Cons: "join sep (s # ss) = s @ (if ss = [] then [] else sep @ join sep ss)"
  by (cases ss) simp_all

lemma join_middle:
  "join sep (xs @ y # zs) =
     (if xs = [] then [] else join sep xs @ sep) @ y @ (if zs = [] then [] else sep @ join sep zs)"
proof (induction xs)
  case Nil
  show ?case by (simp add: join_Cons)
next
  case (Cons x xs)
  have "join sep ((x # xs) @ y # zs) = x @ sep @ join sep (xs @ y # zs)"
    by (simp add: join_Cons)
  also have "\<dots> = (join sep (x # xs) @ sep) @ y @ (if zs = [] then [] else sep @ join sep zs)"
    unfolding Cons.IH by (simp add: join_Cons)
  finally show ?case by simp
qed

lemma dict_str_differs:
  assumes "py_repr env a \<noteq> py_repr env b"
  shows "dict_str env (pre @ (k, a) # post) \<noteq> dict_str env (pre @ (k, b) # post)"
  using assms by (simp add: dict_str_def join_middle)

lemma hash_input_differs:
  assumes "py_repr env a \<noteq> py_repr env b"
  shows "hash_input env net (pre @ (k, a) # post) \<noteq> hash_input env net (pre @ (k, b) # post)"
  using dict_str_differs [OF assms] by (simp add: hash_input_def)

lemma layer_args_cong:
  "net_layers a = net_layers b \<Longrightarrow> net_x a = net_x b \<Longrightarrow> net_kwargs a = net_kwargs b \<Longrightarrow>
     layer_args a kw i outs = layer_args b kw i outs"
  by (simp add: layer_args_def)

lemma graph_loop_cong:
  assumes "net_layers a = net_layers b" and "net_x a = net_x b" and "net_kwargs a = net_kwargs b"
  shows "graph_loop env a kw i ls g = graph_loop env b kw i ls g"
  by (induction ls arbitrary: i g) (simp_all add: layer_args_cong [OF assms] split: sum.splits prod.splits)

lemma get_function_miss:
  assumes "map_of (net_functions net) (hash env net kw) = None"
    and "map_of (net_graphs net) (hash env net kw) = None"
    and "net_x net = Some x"
    and "graph_loop env net kw 0 (net_layers net) ([], [], []) = Inr (outs, mons, upds)"
    and "theano_function env [x] outs upds = Inr fn"
  shows "get_function env kw net =
     (Inr (length (net_heap net) + 4),
      net\<lparr>net_graphs := setitem (net_graphs net) (hash env net kw) (length (net_heap net) + 3),
          net_functions :=
            setitem (net_functions net) (hash env net kw) (length (net_heap net) + 4),
          net_heap := net_heap net @ [ExprList outs, MonList mons, UpdList upds,
             Tuple3 (length (net_heap net)) (length (net_heap net) + 1) (length (net_heap net) + 2),
             fn]\<rparr>)"
  unfolding get_function_def Let_def build_graph_miss [OF assms(2,4)]
  using assms(1,3,5) unpack_fresh [of "net_heap net" outs mons upds]
  by (simp add: eval_nat_numeral)

lemma feed_forward_state:
  "get_function env kw net = (Inr f, net1) \<Longrightarrow> snd (feed_forward env xd kw net) = net1"
  by (simp add: feed_forward_def split: sum.splits)

lemma compiles_obtain:
  assumes "compiles env net kw" and "net_x net = Some x"
    and "graph_loop env net kw 0 (net_layers net) ([], [], []) = Inr (outs, mons, upds)"
  shows "\<exists>fn. theano_function env [x] outs upds = Inr fn"
  using assms by (auto simp: compiles_def split: sum.splits)

text \<open>
  Claim C6. Let two option mappings differ in the value of \<^verbatim>\<open>input_noise\<close> only, the
  two values printing differently (as two different numbers do), and let MD5 not collide
  on the two strings it receives. Then the two keys differ. On a network with the input
  variable set, an integer \<^verbatim>\<open>decode_from\<close> and neither key in its caches, whose graphs
  for the two mappings compile, \<^verbatim>\<open>feed_forward\<close> with the one and then the other mapping
  leaves two entries in the graph cache, for two distinct tuples that hold the two graphs,
  and two entries in the function cache, for two distinct objects: the functions that
  \<^verbatim>\<open>theano.function\<close> has returned for the two graphs.
\<close>

theorem distinct_noise_distinct_entries:
  assumes kw1: "kw1 = pre @ (''input_noise'', a) # post"
    and kw2: "kw2 = pre @ (''input_noise'', b) # post"
    and repr: "py_repr env a \<noteq> py_repr env b"
    and md5: "inj_on (md5_hexdigest env) {hash_input env net kw1, hash_input env net kw2}"
    and x: "net_x net = Some x"
    and d: "get_default (net_kwargs net) ''decode_from'' (PInt 1) = PInt d"
    and comp: "compiles env net kw1" "compiles env net kw2"
    and fresh: "map_of (net_graphs net) (hash env net kw1) = None"
      "map_of (net_graphs net) (hash env net kw2) = None"
      "map_of (net_functions net) (hash env net kw1) = None"
      "map_of (net_functions net) (hash env net kw2) = None"
    and run: "net2 = snd (feed_forward env xd kw2 (snd (feed_forward env xd kw1 net)))"
  shows "hash env net kw1 \<noteq> hash env net kw2
     \<and> (\<exists>t1 t2 f1 f2 o1 m1 u1 o2 m2 u2 fn1 fn2.
           map_of (net_graphs net2) (hash env net kw1) = Some t1
           \<and> map_of (net_graphs net2) (hash env net kw2) = Some t2 \<and> t1 \<noteq> t2
           \<and> graph_loop env net kw1 0 (net_layers net) ([], [], []) = Inr (o1, m1, u1)
           \<and> graph_loop env net kw2 0 (net_layers net) ([], [], []) = Inr (o2, m2, u2)
           \<and> unpack_graph (net_heap net2) t1 = Inr (o1, m1, u1)
           \<and> unpack_graph (net_heap net2) t2 = Inr (o2, m2, u2)
           \<and> map_of (net_functions net2) (hash env net kw1) = Some f1
           \<and> map_of (net_functions net2) (hash env net kw2) = Some f2 \<and> f1 \<noteq> f2
           \<and> theano_function env [x] o1 u1 = Inr fn1
           \<and> theano_function env [x] o2 u2 = Inr fn2
           \<and> deref (net_heap net2) f1 = Inr fn1
           \<and> deref (net_heap net2) f2 = Inr fn2)"
proof -
  let ?k1 = "hash env net kw1" and ?k2 = "hash env net kw2"
  let ?h = "net_heap net"
  have "hash_input env net kw1 \<noteq> hash_input env net kw2"
    unfolding kw1 kw2 by (rule hash_input_differs [OF repr])
  with md5 have ne: "?k1 \<noteq> ?k2" by (auto simp: hash_def inj_on_def)
  obtain g1 where "graph_loop env net kw1 0 (net_layers net) ([], [], []) = Inr g1"
    using graph_loop_total [OF x d, of "([], [], [])" 0 env kw1 "net_layers net"] by auto
  then obtain o1 m1 u1 where
    g1: "graph_loop env net kw1 0 (net_layers net) ([], [], []) = Inr (o1, m1, u1)"
    by (cases g1) auto
  from compiles_obtain [OF comp(1) x g1] obtain fn1 where
    c1: "theano_function env [x] o1 u1 = Inr fn1" ..
  define net1 where "net1 = net\<lparr>net_graphs := setitem (net_graphs net) ?k1 (length ?h + 3),
              net_functions := setitem (net_functions net) ?k1 (length ?h + 4),
              net_heap := ?h @ [ExprList o1, MonList m1, UpdList u1,
                 Tuple3 (length ?h) (length ?h + 1) (length ?h + 2), fn1]\<rparr>"
  have f1: "get_function env kw1 net = (Inr (length ?h + 4), net1)"
    unfolding net1_def by (rule get_function_miss [OF fresh(3) fresh(1) x g1 c1])
  have same: "net_layers net1 = net_layers net" "net_x net1 = net_x net"
    "net_kwargs net1 = net_kwargs net" by (simp_all add: net1_def)
  have k2: "hash env net1 kw2 = ?k2" by (rule hash_layers [OF same(1)])
  obtain g2 where "graph_loop env net kw2 0 (net_layers net) ([], [], []) = Inr g2"
    using graph_loop_total [OF x d, of "([], [], [])" 0 env kw2 "net_layers net"] by auto
  then obtain o2 m2 u2 where
    g2n: "graph_loop env net kw2 0 (net_layers net) ([], [], []) = Inr (o2, m2, u2)"
    by (cases g2) auto
  from compiles_obtain [OF comp(2) x g2n] obtain fn2 where
    c2: "theano_function env [x] o2 u2 = Inr fn2" ..
  from g2n have g2: "graph_loop env net1 kw2 0 (net_layers net1) ([], [], []) = Inr (o2, m2, u2)"
    using graph_loop_cong [OF same] same(1) by simp
  let ?h1 = "net_heap net1"
  have l1: "length ?h1 = length ?h + 5" by (simp add: net1_def)
  have m1g: "map_of (net_graphs net1) (hash env net1 kw2) = None"
    and m1f: "map_of (net_functions net1) (hash env net1 kw2) = None"
    unfolding k2 using ne fresh(2,4) by (simp_all add: net1_def map_of_setitem_other)
  have x1: "net_x net1 = Some x" using x same(2) by simp
  define net2' where "net2' = net1\<lparr>net_graphs := setitem (net_graphs net1) ?k2 (length ?h1 + 3),
              net_functions := setitem (net_functions net1) ?k2 (length ?h1 + 4),
              net_heap := ?h1 @ [ExprList o2, MonList m2, UpdList u2,
                 Tuple3 (length ?h1) (length ?h1 + 1) (length ?h1 + 2), fn2]\<rparr>"
  have f2: "get_function env kw2 net1 = (Inr (length ?h1 + 4), net2')"
    unfolding net2'_def using get_function_miss [OF m1f m1g x1 g2 c2] unfolding k2 .
  have n2: "net2 = net2'"
    unfolding run feed_forward_state [OF f1] feed_forward_state [OF f2] ..
  have a: "map_of (net_graphs net2) ?k1 = Some (length ?h + 3)"
    using ne by (simp add: n2 net2'_def net1_def map_of_setitem_other map_of_setitem_same)
  have b: "map_of (net_graphs net2) ?k2 = Some (length ?h + 8)"
    by (simp add: n2 net2'_def map_of_setitem_same l1)
  have c: "map_of (net_functions net2) ?k1 = Some (length ?h + 4)"
    using ne by (simp add: n2 net2'_def net1_def map_of_setitem_other map_of_setitem_same)
  have e: "map_of (net_functions net2) ?k2 = Some (length ?h + 9)"
    by (simp add: n2 net2'_def map_of_setitem_same l1)
  have hp: "net_heap net2 = ?h @ [ExprList o1, MonList m1, UpdList u1,
                 Tuple3 (length ?h) (length ?h + 1) (length ?h + 2), fn1,
                 ExprList o2, MonList m2, UpdList u2,
                 Tuple3 (length ?h + 5) (length ?h + 6) (length ?h + 7), fn2]"
    by (simp add: n2 net2'_def net1_def)
  have p1: "deref (net_heap net2) (length ?h + 4) = Inr fn1"
    and p2: "deref (net_heap net2) (length ?h + 9) = Inr fn2"
    and q1: "unpack_graph (net_heap net2) (length ?h + 3) = Inr (o1, m1, u1)"
    and q2: "unpack_graph (net_heap net2) (length ?h + 8) = Inr (o2, m2, u2)"
    unfolding hp by (simp_all add: deref_def unpack_graph_def nth_append)
  from ne a b c e p1 p2 q1 q2 g1 g2n c1 c2 show ?thesis by force
qed

theorem distinct_noise_distinct_entries_witness:
  "hash plain two_layer_net [(''input_noise'', PInt 0)]
     \<noteq> hash plain two_layer_net [(''input_noise'', PInt 1)]
   \<and> (\<exists>t1 t2 f1 f2 fn1 fn2.
         map_of (net_graphs (snd (feed_forward plain [[1]] [(''input_noise'', PInt 1)]
                  (snd (feed_forward plain [[1]] [(''input_noise'', PInt 0)] two_layer_net)))))
           (hash plain two_layer_net [(''input_noise'', PInt 0)]) = Some t1
         \<and> map_of (net_graphs (snd (feed_forward plain [[1]] [(''input_noise'', PInt 1)]
                  (snd (feed_forward plain [[1]] [(''input_noise'', PInt 0)] two_layer_net)))))
           (hash plain two_layer_net [(''input_noise'', PInt 1)]) = Some t2
         \<and> t1 \<noteq> t2
         \<and> map_of (net_functions (snd (feed_forward plain [[1]] [(''input_noise'', PInt 1)]
                  (snd (feed_forward plain [[1]] [(''input_noise'', PInt 0)] two_layer_net)))))
           (hash plain two_layer_net [(''input_noise'', PInt 0)]) = Some f1
         \<and> map_of (net_functions (snd (feed_forward plain [[1]] [(''input_noise'', PInt 1)]
                  (snd (feed_forward plain [[1]] [(''input_noise'', PInt 0)] two_layer_net)))))
           (hash plain two_layer_net [(''input_noise'', PInt 1)]) = Some f2
         \<and> f1 \<noteq> f2
         \<and> deref (net_heap (snd (feed_forward plain [[1]] [(''input_noise'', PInt 1)]
                  (snd (feed_forward plain [[1]] [(''input_noise'', PInt 0)] two_layer_net)))))
              f1 = Inr fn1
         \<and> deref (net_heap (snd (feed_forward plain [[1]] [(''input_noise'', PInt 1)]
                  (snd (feed_forward plain [[1]] [(''input_noise'', PInt 0)] two_layer_net)))))
              f2 = Inr fn2)"
proof -
  let ?kw1 = "[(''input_noise'', PInt 0)]" and ?kw2 = "[(''input_noise'', PInt 1)]"
  have kw1: "?kw1 = [] @ (''input_noise'', PInt 0) # []"
    and kw2: "?kw2 = [] @ (''input_noise'', PInt 1) # []" by simp_all
  have r: "py_repr plain (PInt 0) \<noteq> py_repr plain (PInt 1)" by code_simp
  have i: "inj_on (md5_hexdigest plain)
             {hash_input plain two_layer_net ?kw1, hash_input plain two_layer_net ?kw2}"
    by (simp add: plain_def inj_on_def)
  have c: "compiles plain two_layer_net ?kw1" "compiles plain two_layer_net ?kw2"
    by code_simp+
  have x: "net_x two_layer_net = Some (Matrix ''x'')"
    and d: "get_default (net_kwargs two_layer_net) ''decode_from'' (PInt 1) = PInt 1"
    and f: "map_of (net_graphs two_layer_net) (hash plain two_layer_net ?kw1) = None"
      "map_of (net_graphs two_layer_net) (hash plain two_layer_net ?kw2) = None"
      "map_of (net_functions two_layer_net) (hash plain two_layer_net ?kw1) = None"
      "map_of (net_functions two_layer_net) (hash plain two_layer_net ?kw2) = None"
    by (simp_all add: two_layer_net_def get_default_def)
  from distinct_noise_distinct_entries [OF kw1 kw2 r i x d c f refl, of "[[1]]"]
  show ?thesis by blast
qed

text \<open>
  Without that hypothesis there is nothing to store: on a network without layers the
  graph has no output, the compilation raises, and \<^verbatim>\<open>feed_forward\<close> leaves the graph
  cached and the function cache empty.
\<close>

lemma feed_forward_compile_error:
  "(case init plain [] of
      Inl e \<Rightarrow> None
    | Inr net \<Rightarrow>
        (case feed_forward plain [[1]] [] net of
           (r, net1) \<Rightarrow> Some (r, length (net_graphs net1), net_functions net1)))
   = Some (Inl (TheanoError ''UnusedInputError''), 1, [])"
  by code_simp

subsection \<open>Loading parameters\<close>

lemma set_values_other: "p \<notin> set ps \<Longrightarrow> set_values ps vs st p = st p"
  by (induction ps vs st rule: set_values.induct) auto

lemma load_layers_eq:
  "load_layers saved ls st =
     ((case dropWhile (present saved) ls of [] \<Rightarrow> None | l # rest \<Rightarrow> Some (KeyError (values_key l))),
      foldl (load_layer saved) st (takeWhile (present saved) ls))"
  by (induction ls arbitrary: st) (auto simp: present_def load_layer_def split: option.splits)

lemma foldl_load_layer_other:
  "p \<notin> set (concat (map l_params ls)) \<Longrightarrow> foldl (load_layer saved) st ls p = st p"
proof (induction ls arbitrary: st)
  case Nil
  then show ?case by simp
next
  case (Cons l ls)
  then have "foldl (load_layer saved) (load_layer saved st l) ls p = load_layer saved st l p"
    by simp
  moreover from Cons.prems have "load_layer saved st l p = st p"
    by (auto simp: load_layer_def set_values_other split: option.splits)
  ultimately show ?case by simp
qed

text \<open>
  Claim C1, as amended. When the persisted record has no \<^verbatim>\<open>'{name}-values'\<close> key for
  some layer, \<^verbatim>\<open>load_params\<close> raises \<^verbatim>\<open>KeyError\<close> at the first such layer, in layer
  order: the layers before it have been loaded from the record, no later layer is, and
  every parameter that belongs to none of the layers before it keeps its value. When every
  layer has its key, no error is raised and all layers are loaded.
\<close>

theorem load_params_missing_key:
  assumes "read_pickle fs filename = Inr saved"
  shows "load_params fs filename net st =
       ((case dropWhile (present saved) (net_layers net) of
           [] \<Rightarrow> None
         | l # rest \<Rightarrow> Some (KeyError (values_key l))),
        foldl (load_layer saved) st (takeWhile (present saved) (net_layers net)))
     \<and> (\<forall>p. p \<notin> set (concat (map l_params (takeWhile (present saved) (net_layers net))))
            \<longrightarrow> snd (load_params fs filename net st) p = st p)"
  using assms by (simp add: load_params_def load_layers_eq foldl_load_layer_other)

theorem load_params_missing_key_witness:
  "fst (load_params disk ''full.pkl'' in_out (\<lambda>p. 0)) = None
   \<and> map (snd (load_params disk ''full.pkl'' in_out (\<lambda>p. 0))) [0, 1, 2, 3, 4] = [5, 6, 7, 8, 0]"
proof -
  have r: "read_pickle disk ''full.pkl''
           = Inr [(''in-values'', []), (''hid1-values'', [5, 6]), (''out-values'', [7, 8])]"
    by code_simp
  show ?thesis
    unfolding load_params_missing_key [OF r, of in_out "\<lambda>p. 0", THEN conjunct1]
    by (simp add: in_out_def present_def values_key_def load_layer_def)
qed

text \<open>
  The claim as stated has the layer skipped without an error and the other layers loaded.
  With the entry of \<open>hid1\<close> missing, the call raises \<^verbatim>\<open>KeyError\<close> and the parameters
  of \<open>out\<close>, whose entry is in the record, are not loaded.
\<close>

theorem load_params_raises_key_error:
  "fst (load_params disk ''partial.pkl'' in_out (\<lambda>p. 0)) = Some (KeyError ''hid1-values'')
   \<and> map (snd (load_params disk ''partial.pkl'' in_out (\<lambda>p. (0::int)))) [0, 1, 2, 3] = [0, 0, 0, 0]"
  by code_simp

end
